theory Spec2Isabelle
  imports Complex_Main
begin

section \<open>Data model (src/types/habit.ts)\<close>

text \<open>
  Date strings ("YYYY-MM-DD") are \<open>string\<close>s and are only ever compared for equality.
  A JavaScript \<open>Date\<close> object is kept as an opaque time stamp.  The hours of a sleep
  entry are stored and compared, never computed with: they are reals.
\<close>

type_synonym timestamp = int

record Habit =
  habit_id :: string
  habit_name :: string
  habit_color :: string
  habit_createdAt :: timestamp
  completedDays :: "string list"

record SleepEntry =
  sleep_date :: string
  hours :: real

record CalendarTask =
  task_id :: string
  title :: string
  task_date :: string
  completed :: bool
  task_color :: "string option"

record Note =
  note_id :: string
  content :: string
  note_date :: string
  note_createdAt :: timestamp

text \<open>\<open>Array.prototype.includes\<close>, \<open>some\<close>, \<open>find\<close> and \<open>findIndex\<close>.\<close>

definition arr_includes :: "'a list \<Rightarrow> 'a \<Rightarrow> bool" where
  "arr_includes xs x = (x \<in> set xs)"

definition arr_some :: "'a list \<Rightarrow> ('a \<Rightarrow> bool) \<Rightarrow> bool" where
  "arr_some xs p = list_ex p xs"

fun findIndex :: "('a \<Rightarrow> bool) \<Rightarrow> 'a list \<Rightarrow> nat option" where
  "findIndex p [] = None"
| "findIndex p (x # xs) =
     (if p x then Some 0 else map_option Suc (findIndex p xs))"

section \<open>Derived metrics (the dashboard page)\<close>

text \<open>
  JavaScript numbers are IEEE 754 doubles: the result of \<open>/\<close> and of \<open>*\<close> is the exact
  result rounded to 53 significant bits, to nearest, a tie going to the even significand.
  \<open>binary64\<close> is that rounding on the normal range (no overflow, no subnormal numbers:
  the quotients and products of the metrics lie between \<open>1 / 2 ^ 32\<close> and 100, an
  array holding fewer than \<open>2 ^ 32\<close> elements).  \<open>Math.round\<close> is exact: the
  nearest integer, a tie going up.
\<close>

definition round_half_even :: "real \<Rightarrow> int" where
  "round_half_even r =
     (let f = \<lfloor>r\<rfloor>; d = r - of_int f
      in if d < 1 / 2 then f else if d > 1 / 2 then f + 1 else if even f then f else f + 1)"

definition binary64 :: "real \<Rightarrow> real" where
  "binary64 x =
     (if x = 0 then 0
      else let e = \<lfloor>log 2 \<bar>x\<bar>\<rfloor>; ulp = 2 powr (of_int e - 52)
           in of_int (round_half_even (x / ulp)) * ulp)"

definition js_div :: "real \<Rightarrow> real \<Rightarrow> real" where
  "js_div a b = binary64 (a / b)"

definition js_mul :: "real \<Rightarrow> real \<Rightarrow> real" where
  "js_mul a b = binary64 (a * b)"

definition Math_round :: "real \<Rightarrow> int" where
  "Math_round x = \<lfloor>x + 1 / 2\<rfloor>"

definition totalHabits :: "Habit list \<Rightarrow> nat" where
  "totalHabits habits = length habits"

definition completedToday :: "string \<Rightarrow> Habit list \<Rightarrow> nat" where
  "completedToday today habits =
     length (filter (\<lambda>h. arr_includes (completedDays h) today) habits)"

definition completionRate :: "string \<Rightarrow> Habit list \<Rightarrow> int" where
  "completionRate today habits =
     (if totalHabits habits > 0
      then Math_round
             (js_mul (js_div (real (completedToday today habits)) (real (totalHabits habits))) 100)
      else 0)"

text \<open>
  \<open>calculateStreak\<close>.  The \<open>Date\<close> that the loop steps back is a local calendar day
  number; \<open>fmt\<close> stands for date-fns' \<open>format(date, 'yyyy-MM-dd')\<close>, a library function
  that is not part of the repository.  The \<open>while (true)\<close> loop has no bound, so the model
  is a partial function: \<open>None\<close> is a loop that never leaves.
\<close>

definition anyCompleted :: "(int \<Rightarrow> string) \<Rightarrow> Habit list \<Rightarrow> int \<Rightarrow> bool" where
  "anyCompleted fmt habits date =
     arr_some habits (\<lambda>h. arr_includes (completedDays h) (fmt date))"

partial_function (option) streak_loop ::
  "(int \<Rightarrow> string) \<Rightarrow> Habit list \<Rightarrow> int \<Rightarrow> nat \<Rightarrow> nat option" where
  "streak_loop fmt habits date streak =
     (if \<not> anyCompleted fmt habits date then Some streak
      else streak_loop fmt habits (date - 1) (streak + 1))"

definition calculateStreak :: "(int \<Rightarrow> string) \<Rightarrow> Habit list \<Rightarrow> int \<Rightarrow> nat option" where
  "calculateStreak fmt habits today =
     (if length habits = 0 then Some 0 else streak_loop fmt habits today 0)"

section \<open>Local state of the two hooks\<close>

text \<open>
  \<open>useHabits\<close> (src/hooks/useHabits.ts) keeps four collections; \<open>useHabitsDb\<close>
  (src/hooks/useHabitsDb.ts) keeps the same four, the \<open>loading\<close> flag and the
  \<open>initialLoadComplete\<close> ref.
\<close>

record local_state =
  habits :: "Habit list"
  sleepEntries :: "SleepEntry list"
  tasks :: "CalendarTask list"
  notes_st :: "Note list"

record db_state = local_state +
  loading :: bool
  initialLoadComplete :: bool

definition collections :: "db_state \<Rightarrow> local_state" where
  "collections st =
     \<lparr>habits = habits st, sleepEntries = sleepEntries st, tasks = tasks st, notes_st = notes_st st\<rparr>"

definition initial_state :: db_state where
  "initial_state =
     \<lparr>habits = [], sleepEntries = [], tasks = [], notes_st = [],
      loading = True, initialLoadComplete = False\<rparr>"

definition initial_local_state :: local_state where
  "initial_local_state = \<lparr>habits = [], sleepEntries = [], tasks = [], notes_st = []\<rparr>"

text \<open>
  \<open>Partial<Omit<Habit, 'id' | 'createdAt'>>\<close> and \<open>Partial<Omit<CalendarTask, 'id'>>\<close>:
  every key is absent (\<open>None\<close>) or carries a value of the field's type; a key set
  to \<open>undefined\<close> on purpose is not modelled.  The object spread
  \<open>{ ...h, ...updates }\<close> overwrites exactly the keys that are present.
\<close>

record HabitUpdates =
  upd_name :: "string option"
  upd_color :: "string option"
  upd_completedDays :: "string list option"

record TaskUpdates =
  upd_title :: "string option"
  upd_date :: "string option"
  upd_completed :: "bool option"
  upd_task_color :: "string option option"

definition spread_Habit :: "Habit \<Rightarrow> HabitUpdates \<Rightarrow> Habit" where
  "spread_Habit h updates =
     h\<lparr>habit_name := (case upd_name updates of None \<Rightarrow> habit_name h | Some n \<Rightarrow> n),
       habit_color := (case upd_color updates of None \<Rightarrow> habit_color h | Some c \<Rightarrow> c),
       completedDays :=
         (case upd_completedDays updates of None \<Rightarrow> completedDays h | Some ds \<Rightarrow> ds)\<rparr>"

definition spread_Task :: "CalendarTask \<Rightarrow> TaskUpdates \<Rightarrow> CalendarTask" where
  "spread_Task t updates =
     t\<lparr>title := (case upd_title updates of None \<Rightarrow> title t | Some x \<Rightarrow> x),
       task_date := (case upd_date updates of None \<Rightarrow> task_date t | Some x \<Rightarrow> x),
       completed := (case upd_completed updates of None \<Rightarrow> completed t | Some x \<Rightarrow> x),
       task_color := (case upd_task_color updates of None \<Rightarrow> task_color t | Some x \<Rightarrow> x)\<rparr>"

section \<open>useHabits: the localStorage-backed hook\<close>

text \<open>
  Each operation is the updater it hands to its \<open>useState\<close> setter.  The values of
  \<open>crypto.randomUUID()\<close> and \<open>new Date()\<close> are arguments.
\<close>

definition useHabits_addHabit ::
  "string \<Rightarrow> timestamp \<Rightarrow> string \<Rightarrow> string \<Rightarrow> local_state \<Rightarrow> local_state" where
  "useHabits_addHabit uuid now name color st =
     (let newHabit = \<lparr>habit_id = uuid, habit_name = name, habit_color = color,
                       habit_createdAt = now, completedDays = []\<rparr>
      in st\<lparr>habits := habits st @ [newHabit]\<rparr>)"

definition useHabits_updateHabit :: "string \<Rightarrow> HabitUpdates \<Rightarrow> local_state \<Rightarrow> local_state" where
  "useHabits_updateHabit ident updates st =
     st\<lparr>habits :=
          map (\<lambda>habit. if habit_id habit = ident then spread_Habit habit updates else habit)
            (habits st)\<rparr>"

definition useHabits_deleteHabit :: "string \<Rightarrow> local_state \<Rightarrow> local_state" where
  "useHabits_deleteHabit ident st =
     st\<lparr>habits := filter (\<lambda>habit. habit_id habit \<noteq> ident) (habits st)\<rparr>"

definition useHabits_toggleHabitDay :: "string \<Rightarrow> string \<Rightarrow> local_state \<Rightarrow> local_state" where
  "useHabits_toggleHabitDay habitId date st =
     st\<lparr>habits :=
          map (\<lambda>habit.
                 if habit_id habit \<noteq> habitId then habit
                 else let isCompleted = arr_includes (completedDays habit) date
                      in habit\<lparr>completedDays :=
                                 (if isCompleted
                                  then filter (\<lambda>d. d \<noteq> date) (completedDays habit)
                                  else completedDays habit @ [date])\<rparr>)
            (habits st)\<rparr>"

definition useHabits_addSleepEntry :: "string \<Rightarrow> real \<Rightarrow> local_state \<Rightarrow> local_state" where
  "useHabits_addSleepEntry date hrs st =
     st\<lparr>sleepEntries :=
          (let prev = sleepEntries st
           in case findIndex (\<lambda>e. sleep_date e = date) prev of
                Some existing \<Rightarrow> prev[existing := \<lparr>sleep_date = date, hours = hrs\<rparr>]
              | None \<Rightarrow> prev @ [\<lparr>sleep_date = date, hours = hrs\<rparr>])\<rparr>"

definition useHabits_addTask ::
  "string \<Rightarrow> string \<Rightarrow> string \<Rightarrow> string option \<Rightarrow> local_state \<Rightarrow> local_state" where
  "useHabits_addTask uuid ttl date color st =
     (let newTask = \<lparr>task_id = uuid, title = ttl, task_date = date, completed = False,
                      task_color = color\<rparr>
      in st\<lparr>tasks := tasks st @ [newTask]\<rparr>)"

definition useHabits_updateTask :: "string \<Rightarrow> TaskUpdates \<Rightarrow> local_state \<Rightarrow> local_state" where
  "useHabits_updateTask ident updates st =
     st\<lparr>tasks :=
          map (\<lambda>task. if task_id task = ident then spread_Task task updates else task)
            (tasks st)\<rparr>"

definition useHabits_deleteTask :: "string \<Rightarrow> local_state \<Rightarrow> local_state" where
  "useHabits_deleteTask ident st =
     st\<lparr>tasks := filter (\<lambda>task. task_id task \<noteq> ident) (tasks st)\<rparr>"

definition useHabits_addNote ::
  "string \<Rightarrow> timestamp \<Rightarrow> string \<Rightarrow> string \<Rightarrow> local_state \<Rightarrow> local_state" where
  "useHabits_addNote uuid now txt date st =
     (let newNote = \<lparr>note_id = uuid, content = txt, note_date = date, note_createdAt = now\<rparr>
      in st\<lparr>notes_st := notes_st st @ [newNote]\<rparr>)"

definition useHabits_updateNote :: "string \<Rightarrow> string \<Rightarrow> local_state \<Rightarrow> local_state" where
  "useHabits_updateNote ident txt st =
     st\<lparr>notes_st :=
          map (\<lambda>note. if note_id note = ident then note\<lparr>content := txt\<rparr> else note)
            (notes_st st)\<rparr>"

definition useHabits_deleteNote :: "string \<Rightarrow> local_state \<Rightarrow> local_state" where
  "useHabits_deleteNote ident st =
     st\<lparr>notes_st := filter (\<lambda>note. note_id note \<noteq> ident) (notes_st st)\<rparr>"

section \<open>The remote store as the sync hook sees it\<close>

text \<open>
  Rows of the five tables of the schema.  A reply of the store is the pair
  \<open>{ data, error }\<close> that the client library resolves to; the hook never sees more of
  the store than these replies, so they are arguments of the model.
\<close>

type_synonym user = string

record habits_row =
  h_id :: string
  h_user_id :: user
  h_name :: string
  h_color :: string
  h_created_at :: timestamp

record habit_completions_row =
  c_id :: string
  c_habit_id :: string
  c_user_id :: user
  c_date :: string
  c_created_at :: timestamp

record sleep_entries_row =
  s_id :: string
  s_user_id :: user
  s_date :: string
  s_hours :: real
  s_created_at :: timestamp

record tasks_row =
  t_id :: string
  t_user_id :: user
  t_title :: string
  t_date :: string
  t_completed :: bool
  t_color :: "string option"
  t_created_at :: timestamp

record notes_row =
  n_id :: string
  n_user_id :: user
  n_content :: string
  n_date :: string
  n_created_at :: timestamp

record 'a reply =
  data :: "'a option"
  error :: "string option"

text \<open>The remote calls the hook issues, and the toasts it raises.\<close>

datatype request =
    Select_habits user
  | Select_habit_completions user
  | Select_sleep_entries user
  | Select_tasks user
  | Select_notes user
  | Insert_habit string string user
  | Update_habit "string option" "string option" string user
  | Delete_habit string user
  | Delete_habit_completion string string user
  | Insert_habit_completion string string user
  | Upsert_sleep_entry string real user
  | Insert_task string string "string option" user
  | Update_task TaskUpdates string user
  | Delete_task string user
  | Insert_note string string user
  | Update_note string string user
  | Delete_note string user

datatype notice = toast_error string | toast_success string

record outcome =
  state :: db_state
  requests :: "request list"
  notices :: "notice list"
  render_throws :: bool

text \<open>The constraints of the schema that the claims rely on.\<close>

definition habits_PRIMARY_KEY :: "habits_row list \<Rightarrow> bool" where
  "habits_PRIMARY_KEY rows = distinct (map h_id rows)"

definition habit_completions_UNIQUE :: "habit_completions_row list \<Rightarrow> bool" where
  "habit_completions_UNIQUE rows = distinct (map (\<lambda>c. (c_habit_id c, c_date c)) rows)"

definition sleep_entries_CHECK :: "real \<Rightarrow> bool" where
  "sleep_entries_CHECK hrs = (hrs \<ge> 0 \<and> hrs \<le> 24)"

section \<open>useHabitsDb: the sync hook\<close>

text \<open>
  An operation takes the authenticated owner (\<open>None\<close> when there is none), the reply of
  the store to the one call it may issue, its arguments and the local state that its
  updater receives (\<open>prev\<close>); it returns the new local state with the calls issued and
  the toasts raised.  Only \<open>toggleHabitDay\<close> reads the state outside an updater: it
  looks the habit up in the \<open>habits\<close> of the render whose callback is called, which
  is a further argument (\<open>rendered\<close>), and need not be the state the updater receives
  when another update came in between, or when the same callback is called twice.
\<close>

definition unchanged :: "db_state \<Rightarrow> outcome" where
  "unchanged st = \<lparr>state = st, requests = [], notices = [], render_throws = False\<rparr>"

definition orEmpty :: "'a list option \<Rightarrow> 'a list" where
  "orEmpty d = (case d of None \<Rightarrow> [] | Some rows \<Rightarrow> rows)"

definition habitsWithCompletions ::
  "habits_row list \<Rightarrow> habit_completions_row list \<Rightarrow> Habit list" where
  "habitsWithCompletions habitsData completionsData =
     map (\<lambda>h. \<lparr>habit_id = h_id h, habit_name = h_name h, habit_color = h_color h,
                habit_createdAt = h_created_at h,
                completedDays =
                  map c_date (filter (\<lambda>c. c_habit_id c = h_id h) completionsData)\<rparr>)
       habitsData"

definition fetch_failed :: "db_state \<Rightarrow> request list \<Rightarrow> outcome" where
  "fetch_failed st reqs =
     \<lparr>state = st\<lparr>loading := False\<rparr>, requests = reqs,
      notices = [toast_error ''Failed to load data''], render_throws = False\<rparr>"

definition useHabitsDb_fetchData ::
  "user option \<Rightarrow> habits_row list reply \<Rightarrow> habit_completions_row list reply \<Rightarrow>
   sleep_entries_row list reply \<Rightarrow> tasks_row list reply \<Rightarrow> notes_row list reply \<Rightarrow>
   db_state \<Rightarrow> outcome" where
  "useHabitsDb_fetchData usr habitsRes completionsRes sleepRes tasksRes notesRes st =
     (case usr of
        None \<Rightarrow>
          \<lparr>state = st\<lparr>habits := [], sleepEntries := [], tasks := [], notes_st := [],
                       loading := False\<rparr>,
           requests = [], notices = [], render_throws = False\<rparr>
      | Some uid \<Rightarrow>
          if error habitsRes \<noteq> None then fetch_failed st [Select_habits uid]
          else if error completionsRes \<noteq> None
          then fetch_failed st [Select_habits uid, Select_habit_completions uid]
          else
            let st1 = st\<lparr>habits :=
                        habitsWithCompletions (orEmpty (data habitsRes))
                          (orEmpty (data completionsRes))\<rparr>
            in if error sleepRes \<noteq> None
               then fetch_failed st1
                      [Select_habits uid, Select_habit_completions uid, Select_sleep_entries uid]
               else
                 let st2 = st1\<lparr>sleepEntries :=
                             map (\<lambda>s. \<lparr>sleep_date = s_date s, hours = s_hours s\<rparr>)
                               (orEmpty (data sleepRes))\<rparr>
                 in if error tasksRes \<noteq> None
                    then fetch_failed st2
                           [Select_habits uid, Select_habit_completions uid,
                            Select_sleep_entries uid, Select_tasks uid]
                    else
                      let st3 = st2\<lparr>tasks :=
                                  map (\<lambda>t. \<lparr>task_id = t_id t, title = t_title t,
                                             task_date = t_date t, completed = t_completed t,
                                             task_color =
                                               (if t_color t = Some [] then None
                                                else t_color t)\<rparr>)
                                    (orEmpty (data tasksRes))\<rparr>;
                          reqs = [Select_habits uid, Select_habit_completions uid,
                                  Select_sleep_entries uid, Select_tasks uid, Select_notes uid]
                      in if error notesRes \<noteq> None then fetch_failed st3 reqs
                         else
                           \<lparr>state =
                              st3\<lparr>notes_st :=
                                    map (\<lambda>n. \<lparr>note_id = n_id n, content = n_content n,
                                               note_date = n_date n,
                                               note_createdAt = n_created_at n\<rparr>)
                                      (orEmpty (data notesRes)),
                                  loading := False, initialLoadComplete := True\<rparr>,
                            requests = reqs, notices = [], render_throws = False\<rparr>)"

text \<open>
  \<open>addHabit\<close>, \<open>addTask\<close> and \<open>addNote\<close> read the inserted row back, inside the
  updater they hand to the setter.  With no error and no row the setter is still called
  and the toast of \<open>addHabit\<close> still raised; the updater then throws on \<open>data.id\<close>
  when React runs it, so no new state comes out of it and rendering fails
  (\<open>render_throws\<close>).
\<close>

definition useHabitsDb_addHabit ::
  "user option \<Rightarrow> habits_row reply \<Rightarrow> string \<Rightarrow> string \<Rightarrow> db_state \<Rightarrow> outcome" where
  "useHabitsDb_addHabit usr res name color st =
     (case usr of
        None \<Rightarrow> unchanged st
      | Some uid \<Rightarrow>
          if error res \<noteq> None
          then \<lparr>state = st, requests = [Insert_habit name color uid],
                notices = [toast_error ''Failed to add habit''], render_throws = False\<rparr>
          else
            (case data res of
               None \<Rightarrow>
                 \<lparr>state = st, requests = [Insert_habit name color uid],
                  notices = [toast_success ''Habit added!''], render_throws = True\<rparr>
             | Some d \<Rightarrow>
                 \<lparr>state = st\<lparr>habits := habits st @
                             [\<lparr>habit_id = h_id d, habit_name = h_name d,
                               habit_color = h_color d, habit_createdAt = h_created_at d,
                               completedDays = []\<rparr>]\<rparr>,
                  requests = [Insert_habit name color uid],
                  notices = [toast_success ''Habit added!''], render_throws = False\<rparr>))"

definition useHabitsDb_updateHabit ::
  "user option \<Rightarrow> unit reply \<Rightarrow> string \<Rightarrow> HabitUpdates \<Rightarrow> db_state \<Rightarrow> outcome" where
  "useHabitsDb_updateHabit usr res ident updates st =
     (case usr of
        None \<Rightarrow> unchanged st
      | Some uid \<Rightarrow>
          let req = Update_habit (upd_name updates) (upd_color updates) ident uid
          in if error res \<noteq> None
             then \<lparr>state = st, requests = [req],
                   notices = [toast_error ''Failed to update habit''], render_throws = False\<rparr>
             else \<lparr>state = st\<lparr>habits :=
                              map (\<lambda>h. if habit_id h = ident then spread_Habit h updates else h)
                                (habits st)\<rparr>,
                   requests = [req], notices = [], render_throws = False\<rparr>)"

definition useHabitsDb_deleteHabit ::
  "user option \<Rightarrow> unit reply \<Rightarrow> string \<Rightarrow> db_state \<Rightarrow> outcome" where
  "useHabitsDb_deleteHabit usr res ident st =
     (case usr of
        None \<Rightarrow> unchanged st
      | Some uid \<Rightarrow>
          if error res \<noteq> None
          then \<lparr>state = st, requests = [Delete_habit ident uid],
                notices = [toast_error ''Failed to delete habit''], render_throws = False\<rparr>
          else \<lparr>state = st\<lparr>habits := filter (\<lambda>h. habit_id h \<noteq> ident) (habits st)\<rparr>,
                requests = [Delete_habit ident uid],
                notices = [toast_success ''Habit deleted''], render_throws = False\<rparr>)"

definition useHabitsDb_toggleHabitDay ::
  "user option \<Rightarrow> unit reply \<Rightarrow> Habit list \<Rightarrow> string \<Rightarrow> string \<Rightarrow> db_state \<Rightarrow> outcome"
  where
  "useHabitsDb_toggleHabitDay usr res rendered habitId date st =
     (case usr of
        None \<Rightarrow> unchanged st
      | Some uid \<Rightarrow>
          (case find (\<lambda>h. habit_id h = habitId) rendered of
             None \<Rightarrow> unchanged st
           | Some habit \<Rightarrow>
               let isCompleted = arr_includes (completedDays habit) date;
                   req = (if isCompleted then Delete_habit_completion habitId date uid
                          else Insert_habit_completion habitId date uid)
               in if error res \<noteq> None
                  then \<lparr>state = st, requests = [req],
                        notices = [toast_error ''Failed to update''], render_throws = False\<rparr>
                  else \<lparr>state =
                          st\<lparr>habits :=
                               map (\<lambda>h. if habit_id h \<noteq> habitId then h
                                         else h\<lparr>completedDays :=
                                                  (if isCompleted
                                                   then filter (\<lambda>d. d \<noteq> date) (completedDays h)
                                                   else completedDays h @ [date])\<rparr>)
                                 (habits st)\<rparr>,
                        requests = [req], notices = [], render_throws = False\<rparr>))"

definition useHabitsDb_addSleepEntry ::
  "user option \<Rightarrow> unit reply \<Rightarrow> string \<Rightarrow> real \<Rightarrow> db_state \<Rightarrow> outcome" where
  "useHabitsDb_addSleepEntry usr res date hrs st =
     (case usr of
        None \<Rightarrow> unchanged st
      | Some uid \<Rightarrow>
          if error res \<noteq> None
          then \<lparr>state = st, requests = [Upsert_sleep_entry date hrs uid],
                notices = [toast_error ''Failed to save sleep entry''], render_throws = False\<rparr>
          else \<lparr>state =
                  st\<lparr>sleepEntries :=
                       (let prev = sleepEntries st
                        in case findIndex (\<lambda>e. sleep_date e = date) prev of
                             Some existing \<Rightarrow>
                               prev[existing := \<lparr>sleep_date = date, hours = hrs\<rparr>]
                           | None \<Rightarrow> prev @ [\<lparr>sleep_date = date, hours = hrs\<rparr>])\<rparr>,
                requests = [Upsert_sleep_entry date hrs uid], notices = [], render_throws = False\<rparr>)"

definition useHabitsDb_addTask ::
  "user option \<Rightarrow> tasks_row reply \<Rightarrow> string \<Rightarrow> string \<Rightarrow> string option \<Rightarrow>
   db_state \<Rightarrow> outcome" where
  "useHabitsDb_addTask usr res ttl date color st =
     (case usr of
        None \<Rightarrow> unchanged st
      | Some uid \<Rightarrow>
          if error res \<noteq> None
          then \<lparr>state = st, requests = [Insert_task ttl date color uid],
                notices = [toast_error ''Failed to add task''], render_throws = False\<rparr>
          else
            (case data res of
               None \<Rightarrow>
                 \<lparr>state = st, requests = [Insert_task ttl date color uid], notices = [],
                  render_throws = True\<rparr>
             | Some d \<Rightarrow>
                 \<lparr>state = st\<lparr>tasks := tasks st @
                             [\<lparr>task_id = t_id d, title = t_title d, task_date = t_date d,
                               completed = t_completed d,
                               task_color =
                                 (if t_color d = Some [] then None else t_color d)\<rparr>]\<rparr>,
                  requests = [Insert_task ttl date color uid], notices = [], render_throws = False\<rparr>))"

definition useHabitsDb_updateTask ::
  "user option \<Rightarrow> unit reply \<Rightarrow> string \<Rightarrow> TaskUpdates \<Rightarrow> db_state \<Rightarrow> outcome" where
  "useHabitsDb_updateTask usr res ident updates st =
     (case usr of
        None \<Rightarrow> unchanged st
      | Some uid \<Rightarrow>
          if error res \<noteq> None
          then \<lparr>state = st, requests = [Update_task updates ident uid],
                notices = [toast_error ''Failed to update task''], render_throws = False\<rparr>
          else \<lparr>state = st\<lparr>tasks :=
                           map (\<lambda>t. if task_id t = ident then spread_Task t updates else t)
                             (tasks st)\<rparr>,
                requests = [Update_task updates ident uid], notices = [], render_throws = False\<rparr>)"

definition useHabitsDb_deleteTask ::
  "user option \<Rightarrow> unit reply \<Rightarrow> string \<Rightarrow> db_state \<Rightarrow> outcome" where
  "useHabitsDb_deleteTask usr res ident st =
     (case usr of
        None \<Rightarrow> unchanged st
      | Some uid \<Rightarrow>
          if error res \<noteq> None
          then \<lparr>state = st, requests = [Delete_task ident uid],
                notices = [toast_error ''Failed to delete task''], render_throws = False\<rparr>
          else \<lparr>state = st\<lparr>tasks := filter (\<lambda>t. task_id t \<noteq> ident) (tasks st)\<rparr>,
                requests = [Delete_task ident uid], notices = [], render_throws = False\<rparr>)"

definition useHabitsDb_addNote ::
  "user option \<Rightarrow> notes_row reply \<Rightarrow> string \<Rightarrow> string \<Rightarrow> db_state \<Rightarrow> outcome" where
  "useHabitsDb_addNote usr res txt date st =
     (case usr of
        None \<Rightarrow> unchanged st
      | Some uid \<Rightarrow>
          if error res \<noteq> None
          then \<lparr>state = st, requests = [Insert_note txt date uid],
                notices = [toast_error ''Failed to add note''], render_throws = False\<rparr>
          else
            (case data res of
               None \<Rightarrow>
                 \<lparr>state = st, requests = [Insert_note txt date uid], notices = [],
                  render_throws = True\<rparr>
             | Some d \<Rightarrow>
                 \<lparr>state = st\<lparr>notes_st :=
                             \<lparr>note_id = n_id d, content = n_content d, note_date = n_date d,
                              note_createdAt = n_created_at d\<rparr> # notes_st st\<rparr>,
                  requests = [Insert_note txt date uid], notices = [], render_throws = False\<rparr>))"

definition useHabitsDb_updateNote ::
  "user option \<Rightarrow> unit reply \<Rightarrow> string \<Rightarrow> string \<Rightarrow> db_state \<Rightarrow> outcome" where
  "useHabitsDb_updateNote usr res ident txt st =
     (case usr of
        None \<Rightarrow> unchanged st
      | Some uid \<Rightarrow>
          if error res \<noteq> None
          then \<lparr>state = st, requests = [Update_note txt ident uid],
                notices = [toast_error ''Failed to update note''], render_throws = False\<rparr>
          else \<lparr>state = st\<lparr>notes_st :=
                           map (\<lambda>n. if note_id n = ident then n\<lparr>content := txt\<rparr> else n)
                             (notes_st st)\<rparr>,
                requests = [Update_note txt ident uid], notices = [], render_throws = False\<rparr>)"

definition useHabitsDb_deleteNote ::
  "user option \<Rightarrow> unit reply \<Rightarrow> string \<Rightarrow> db_state \<Rightarrow> outcome" where
  "useHabitsDb_deleteNote usr res ident st =
     (case usr of
        None \<Rightarrow> unchanged st
      | Some uid \<Rightarrow>
          if error res \<noteq> None
          then \<lparr>state = st, requests = [Delete_note ident uid],
                notices = [toast_error ''Failed to delete note''], render_throws = False\<rparr>
          else \<lparr>state = st\<lparr>notes_st := filter (\<lambda>n. note_id n \<noteq> ident) (notes_st st)\<rparr>,
                requests = [Delete_note ident uid], notices = [], render_throws = False\<rparr>)"

section \<open>Runs of the sync hook\<close>

text \<open>
  A run is a list of calls, each with the owner at the time of the call and the replies
  of the store; a call of \<open>toggleHabitDay\<close> also carries the \<open>habits\<close> of the render
  whose callback is called.  \<open>fetchData\<close> is the hook's load.
\<close>

datatype event =
    Call_fetchData "user option" "habits_row list reply" "habit_completions_row list reply"
      "sleep_entries_row list reply" "tasks_row list reply" "notes_row list reply"
  | Call_addHabit "user option" "habits_row reply" string string
  | Call_updateHabit "user option" "unit reply" string HabitUpdates
  | Call_deleteHabit "user option" "unit reply" string
  | Call_toggleHabitDay "user option" "unit reply" "Habit list" string string
  | Call_addSleepEntry "user option" "unit reply" string real
  | Call_addTask "user option" "tasks_row reply" string string "string option"
  | Call_updateTask "user option" "unit reply" string TaskUpdates
  | Call_deleteTask "user option" "unit reply" string
  | Call_addNote "user option" "notes_row reply" string string
  | Call_updateNote "user option" "unit reply" string string
  | Call_deleteNote "user option" "unit reply" string

fun step :: "db_state \<Rightarrow> event \<Rightarrow> db_state" where
  "step st (Call_fetchData usr hr cr sr tr nr) = state (useHabitsDb_fetchData usr hr cr sr tr nr st)"
| "step st (Call_addHabit usr res name color) = state (useHabitsDb_addHabit usr res name color st)"
| "step st (Call_updateHabit usr res ident updates) =
     state (useHabitsDb_updateHabit usr res ident updates st)"
| "step st (Call_deleteHabit usr res ident) = state (useHabitsDb_deleteHabit usr res ident st)"
| "step st (Call_toggleHabitDay usr res rendered habitId date) =
     state (useHabitsDb_toggleHabitDay usr res rendered habitId date st)"
| "step st (Call_addSleepEntry usr res date hrs) =
     state (useHabitsDb_addSleepEntry usr res date hrs st)"
| "step st (Call_addTask usr res ttl date color) =
     state (useHabitsDb_addTask usr res ttl date color st)"
| "step st (Call_updateTask usr res ident updates) =
     state (useHabitsDb_updateTask usr res ident updates st)"
| "step st (Call_deleteTask usr res ident) = state (useHabitsDb_deleteTask usr res ident st)"
| "step st (Call_addNote usr res txt date) = state (useHabitsDb_addNote usr res txt date st)"
| "step st (Call_updateNote usr res ident txt) =
     state (useHabitsDb_updateNote usr res ident txt st)"
| "step st (Call_deleteNote usr res ident) = state (useHabitsDb_deleteNote usr res ident st)"

fun run :: "db_state \<Rightarrow> event list \<Rightarrow> db_state" where
  "run st [] = st"
| "run st (e # es) = run (step st e) es"

text \<open>
  What the schema guarantees about the replies: the habit rows of a load have pairwise
  different primary keys, its completion rows are unique per (habit, date), and the
  primary key of a freshly inserted habit is not the identifier of a habit already held.
  \<open>allowed\<close> restricts the \<open>updates\<close> arguments of \<open>updateHabit\<close>.
\<close>

fun store_consistent :: "db_state \<Rightarrow> event \<Rightarrow> bool" where
  "store_consistent st (Call_fetchData usr hr cr sr tr nr) =
     (habits_PRIMARY_KEY (orEmpty (data hr)) \<and> habit_completions_UNIQUE (orEmpty (data cr)))"
| "store_consistent st (Call_addHabit usr res name color) =
     (case data res of None \<Rightarrow> True | Some d \<Rightarrow> h_id d \<notin> set (map habit_id (habits st)))"
| "store_consistent st e = True"

fun updates_allowed :: "(HabitUpdates \<Rightarrow> bool) \<Rightarrow> event \<Rightarrow> bool" where
  "updates_allowed allowed (Call_updateHabit usr res ident updates) = allowed updates"
| "updates_allowed allowed e = True"

fun admissible :: "(HabitUpdates \<Rightarrow> bool) \<Rightarrow> db_state \<Rightarrow> event list \<Rightarrow> bool" where
  "admissible allowed st [] = True"
| "admissible allowed st (e # es) =
     (store_consistent st e \<and> updates_allowed allowed e \<and> admissible allowed (step st e) es)"

text \<open>
  The calls of \<open>toggleHabitDay\<close> in a run that are made through the callback of the
  render showing the very state their updater patches: one call at a time, each after the
  re-render that follows the update before it.
\<close>

fun current_closure :: "db_state \<Rightarrow> event \<Rightarrow> bool" where
  "current_closure st (Call_toggleHabitDay usr res rendered habitId date) =
     (rendered = habits st)"
| "current_closure st e = True"

fun current_closures :: "db_state \<Rightarrow> event list \<Rightarrow> bool" where
  "current_closures st [] = True"
| "current_closures st (e # es) = (current_closure st e \<and> current_closures (step st e) es)"

definition any_updates :: "HabitUpdates \<Rightarrow> bool" where
  "any_updates updates = True"

definition duplicate_free_updates :: "HabitUpdates \<Rightarrow> bool" where
  "duplicate_free_updates updates =
     (case upd_completedDays updates of None \<Rightarrow> True | Some ds \<Rightarrow> distinct ds)"

definition no_duplicate_dates :: "Habit list \<Rightarrow> bool" where
  "no_duplicate_dates hs = list_all (\<lambda>h. distinct (completedDays h)) hs"

definition distinct_ids :: "Habit list \<Rightarrow> bool" where
  "distinct_ids hs = distinct (map habit_id hs)"

definition hook_inv :: "db_state \<Rightarrow> bool" where
  "hook_inv st = (distinct_ids (habits st) \<and> no_duplicate_dates (habits st))"

section \<open>Predicates used in the statements\<close>

text \<open>
  The updater that both hooks hand to \<open>setSleepEntries\<close>, named for the proofs, and the
  range the schema's \<open>CHECK\<close> puts on stored hours.
\<close>

definition replace_or_insert :: "string \<Rightarrow> real \<Rightarrow> SleepEntry list \<Rightarrow> SleepEntry list" where
  "replace_or_insert date hrs prev =
     (case findIndex (\<lambda>e. sleep_date e = date) prev of
        Some existing \<Rightarrow> prev[existing := \<lparr>sleep_date = date, hours = hrs\<rparr>]
      | None \<Rightarrow> prev @ [\<lparr>sleep_date = date, hours = hrs\<rparr>])"

definition one_entry_per_date :: "SleepEntry list \<Rightarrow> bool" where
  "one_entry_per_date es = distinct (map sleep_date es)"

definition hours_in_range :: "SleepEntry list \<Rightarrow> bool" where
  "hours_in_range es = list_all (\<lambda>e. sleep_entries_CHECK (hours e)) es"

text \<open>What \<open>updateHabit\<close> may do to one habit \<open>h\<close>, giving \<open>h'\<close>.\<close>

definition updateHabit_effect :: "string \<Rightarrow> HabitUpdates \<Rightarrow> Habit \<Rightarrow> Habit \<Rightarrow> bool" where
  "updateHabit_effect ident updates h h' =
     (habit_id h' = habit_id h \<and> habit_createdAt h' = habit_createdAt h \<and>
      (if habit_id h = ident
       then habit_name h' = (case upd_name updates of None \<Rightarrow> habit_name h | Some n \<Rightarrow> n) \<and>
            habit_color h' = (case upd_color updates of None \<Rightarrow> habit_color h | Some c \<Rightarrow> c) \<and>
            completedDays h' =
              (case upd_completedDays updates of None \<Rightarrow> completedDays h | Some ds \<Rightarrow> ds)
       else h' = h))"

definition updateHabit_keeps :: "string \<Rightarrow> HabitUpdates \<Rightarrow> Habit \<Rightarrow> Habit \<Rightarrow> bool" where
  "updateHabit_keeps ident updates h h' =
     (habit_id h' = habit_id h \<and> habit_createdAt h' = habit_createdAt h \<and>
      (if habit_id h = ident
       then (if upd_completedDays updates = None then completedDays h' = completedDays h
             else True)
       else h' = h))"

text \<open>The patch of one habit that \<open>toggleHabitDay\<close> of \<open>useHabits\<close> maps over the list.\<close>

definition toggled :: "string \<Rightarrow> string \<Rightarrow> Habit \<Rightarrow> Habit" where
  "toggled habitId date habit =
     (if habit_id habit \<noteq> habitId then habit
      else habit\<lparr>completedDays :=
                   (if date \<in> set (completedDays habit)
                    then filter (\<lambda>d. d \<noteq> date) (completedDays habit)
                    else completedDays habit @ [date])\<rparr>)"

text \<open>
  A habit \<open>a\<close> and what it has become, \<open>b\<close>, once a day of habit \<open>habitId\<close> was toggled
  twice: the same habit with the same set of completed days, and the very same habit
  when its identifier is another one.
\<close>

definition toggle_restores :: "string \<Rightarrow> Habit \<Rightarrow> Habit \<Rightarrow> bool" where
  "toggle_restores habitId a b =
     (if habit_id a = habitId
      then b = a\<lparr>completedDays := completedDays b\<rparr> \<and>
           set (completedDays b) = set (completedDays a)
      else b = a)"

section \<open>Example data\<close>

definition ok :: "unit reply" where
  "ok = \<lparr>data = None, error = None\<rparr>"

definition rejected :: "unit reply" where
  "rejected = \<lparr>data = None, error = Some ''23514''\<rparr>"

definition none_selected :: "'a list reply" where
  "none_selected = \<lparr>data = Some [], error = None\<rparr>"

definition row_run :: habits_row where
  "row_run = \<lparr>h_id = ''h1'', h_user_id = ''u1'', h_name = ''Run'', h_color = ''red'',
              h_created_at = 100\<rparr>"

definition row_read :: habits_row where
  "row_read = \<lparr>h_id = ''h2'', h_user_id = ''u1'', h_name = ''Read'', h_color = ''blue'',
               h_created_at = 200\<rparr>"

definition row_nap :: habits_row where
  "row_nap = \<lparr>h_id = ''h3'', h_user_id = ''u1'', h_name = ''Nap'', h_color = ''green'',
              h_created_at = 300\<rparr>"

definition completion :: "string \<Rightarrow> string \<Rightarrow> string \<Rightarrow> habit_completions_row" where
  "completion k habit date =
     \<lparr>c_id = k, c_habit_id = habit, c_user_id = ''u1'', c_date = date, c_created_at = 400\<rparr>"

definition example_load :: event where
  "example_load =
     Call_fetchData (Some ''u1'') \<lparr>data = Some [row_run, row_read], error = None\<rparr>
       \<lparr>data = Some [completion ''c1'' ''h1'' ''2024-05-01'',
                      completion ''c2'' ''h2'' ''2024-05-01'',
                      completion ''c3'' ''h1'' ''2024-05-02''], error = None\<rparr>
       none_selected none_selected none_selected"

text \<open>
  A run in which every call of \<open>toggleHabitDay\<close> goes through the callback of the render
  that shows the state it patches: its closure holds the habits of the run so far.
\<close>

definition load_and_add :: "event list" where
  "load_and_add =
     [example_load,
      Call_addHabit (Some ''u1'') \<lparr>data = Some row_nap, error = None\<rparr> ''Nap'' ''green'']"

definition first_toggle_run :: "event list" where
  "first_toggle_run =
     load_and_add @
     [Call_toggleHabitDay (Some ''u1'') ok (habits (run initial_state load_and_add))
        ''h1'' ''2024-05-03'']"

definition example_run :: "event list" where
  "example_run =
     first_toggle_run @
     [Call_toggleHabitDay (Some ''u1'') ok (habits (run initial_state first_toggle_run))
        ''h1'' ''2024-05-01'',
      Call_updateHabit (Some ''u1'') ok ''h2''
        \<lparr>upd_name = Some ''Read more'', upd_color = None, upd_completedDays = None\<rparr>,
      Call_deleteHabit (Some ''u1'') ok ''h2'']"

text \<open>A run that hands \<open>updateHabit\<close> a completion list holding a date twice.\<close>

definition duplicating_run :: "event list" where
  "duplicating_run =
     [Call_addHabit (Some ''u1'') \<lparr>data = Some row_run, error = None\<rparr> ''Run'' ''red'',
      Call_updateHabit (Some ''u1'') ok ''h1''
        \<lparr>upd_name = None, upd_color = None,
         upd_completedDays = Some [''2024-05-01'', ''2024-05-01'']\<rparr>]"

text \<open>
  A run in which a call of \<open>toggleHabitDay\<close> made when the habit had no completed day
  patches the state only after \<open>updateHabit\<close> has put the day into the list (the toggle
  was in flight): its closure holds the habits of \<open>added_run\<close>.  The store accepts the
  insert, \<open>updateHabit\<close> having written no completion row.
\<close>

definition added_run :: "event list" where
  "added_run =
     [Call_addHabit (Some ''u1'') \<lparr>data = Some row_run, error = None\<rparr> ''Run'' ''red'']"

definition stale_toggle_run :: "event list" where
  "stale_toggle_run =
     added_run @
     [Call_updateHabit (Some ''u1'') ok ''h1''
        \<lparr>upd_name = None, upd_color = None, upd_completedDays = Some [''2024-05-01'']\<rparr>,
      Call_toggleHabitDay (Some ''u1'') ok (habits (run initial_state added_run))
        ''h1'' ''2024-05-01'']"

text \<open>
  A load, and the load followed by one call of \<open>toggleHabitDay\<close> through the callback of
  the render that shows the loaded habits.
\<close>

definition loaded_run :: "event list" where
  "loaded_run = [example_load]"

definition toggled_run :: "event list" where
  "toggled_run =
     loaded_run @
     [Call_toggleHabitDay (Some ''u1'') ok (habits (run initial_state loaded_run))
        ''h1'' ''2024-05-01'']"

definition three_habits :: "Habit list" where
  "three_habits =
     [\<lparr>habit_id = ''h1'', habit_name = ''Run'', habit_color = ''red'', habit_createdAt = 100,
       completedDays = [''2024-05-02'']\<rparr>,
      \<lparr>habit_id = ''h2'', habit_name = ''Read'', habit_color = ''blue'', habit_createdAt = 200,
       completedDays = [''2024-05-01'', ''2024-05-02'']\<rparr>,
      \<lparr>habit_id = ''h3'', habit_name = ''Nap'', habit_color = ''green'', habit_createdAt = 300,
       completedDays = []\<rparr>]"

definition forty_habits :: "Habit list" where
  "forty_habits =
     map (\<lambda>i. \<lparr>habit_id = replicate (Suc i) CHR ''h'', habit_name = ''Run'',
                habit_color = ''red'', habit_createdAt = int i,
                completedDays = [''2024-05-02'']\<rparr>) [0..<23] @
     map (\<lambda>i. \<lparr>habit_id = replicate (Suc i) CHR ''h'', habit_name = ''Rest'',
                habit_color = ''blue'', habit_createdAt = int i, completedDays = []\<rparr>)
       [23..<40]"

definition may_2024 :: "int \<Rightarrow> string" where
  "may_2024 d =
     (if d = 4 then ''2024-05-04'' else if d = 3 then ''2024-05-03''
      else if d = 2 then ''2024-05-02'' else if d = 1 then ''2024-05-01''
      else if d = 0 then ''2024-04-30'' else ''2024-04-29'')"

definition streak_habits :: "Habit list" where
  "streak_habits =
     [\<lparr>habit_id = ''h1'', habit_name = ''Run'', habit_color = ''red'', habit_createdAt = 100,
       completedDays = [''2024-05-03'', ''2024-05-01'']\<rparr>,
      \<lparr>habit_id = ''h2'', habit_name = ''Read'', habit_color = ''blue'', habit_createdAt = 200,
       completedDays = [''2024-05-02'']\<rparr>]"

definition tally :: "int \<Rightarrow> string" where
  "tally d =
     (if 0 \<le> d then CHR ''+'' # replicate (nat d) CHR ''I''
      else CHR ''-'' # replicate (nat (- d)) CHR ''I'')"

definition tally_habits :: "Habit list" where
  "tally_habits =
     [\<lparr>habit_id = ''h1'', habit_name = ''Run'', habit_color = ''red'', habit_createdAt = 100,
       completedDays = [tally 2, tally 1]\<rparr>]"

definition sample_state :: db_state where
  "sample_state =
     \<lparr>habits =
        [\<lparr>habit_id = ''h1'', habit_name = ''Run'', habit_color = ''red'', habit_createdAt = 100,
          completedDays = [''2024-05-01'', ''2024-05-02'']\<rparr>,
         \<lparr>habit_id = ''h2'', habit_name = ''Read'', habit_color = ''blue'',
          habit_createdAt = 200, completedDays = [''2024-05-02'']\<rparr>],
      sleepEntries =
        [\<lparr>sleep_date = ''2024-05-01'', hours = 7\<rparr>, \<lparr>sleep_date = ''2024-05-02'', hours = 8\<rparr>],
      tasks =
        [\<lparr>task_id = ''t1'', title = ''Shop'', task_date = ''2024-05-02'', completed = False,
          task_color = None\<rparr>],
      notes_st =
        [\<lparr>note_id = ''n1'', content = ''first'', note_date = ''2024-05-01'',
          note_createdAt = 500\<rparr>],
      loading = False, initialLoadComplete = True\<rparr>"

definition failed_insert :: "'a reply" where
  "failed_insert = \<lparr>data = None, error = Some ''42501''\<rparr>"

definition rename_only :: HabitUpdates where
  "rename_only = \<lparr>upd_name = Some ''Jog'', upd_color = None, upd_completedDays = None\<rparr>"

definition tick_only :: TaskUpdates where
  "tick_only =
     \<lparr>upd_title = None, upd_date = None, upd_completed = Some True, upd_task_color = None\<rparr>"

definition notes_row_second :: notes_row where
  "notes_row_second =
     \<lparr>n_id = ''n2'', n_user_id = ''u1'', n_content = ''second'', n_date = ''2024-05-02'',
      n_created_at = 600\<rparr>"

definition clear_days :: HabitUpdates where
  "clear_days = \<lparr>upd_name = None, upd_color = None, upd_completedDays = Some []\<rparr>"

section \<open>Unfolding rules\<close>

lemmas hook_defs =
  useHabitsDb_fetchData_def useHabitsDb_addHabit_def useHabitsDb_updateHabit_def
  useHabitsDb_deleteHabit_def useHabitsDb_toggleHabitDay_def useHabitsDb_addSleepEntry_def
  useHabitsDb_addTask_def useHabitsDb_updateTask_def useHabitsDb_deleteTask_def
  useHabitsDb_addNote_def useHabitsDb_updateNote_def useHabitsDb_deleteNote_def
  unchanged_def fetch_failed_def habitsWithCompletions_def orEmpty_def
  spread_Habit_def spread_Task_def arr_includes_def Let_def

lemmas example_defs =
  initial_state_def initial_local_state_def ok_def rejected_def none_selected_def
  row_run_def row_read_def row_nap_def completion_def sample_state_def failed_insert_def
  rename_only_def tick_only_def

lemmas run_defs =
  example_load_def load_and_add_def first_toggle_run_def example_run_def duplicating_run_def
  added_run_def stale_toggle_run_def loaded_run_def toggled_run_def

section \<open>Completion rate\<close>

lemma round_half_even_near: "\<bar>real_of_int (round_half_even r) - r\<bar> \<le> 1 / 2"
  unfolding round_half_even_def Let_def by (auto; linarith)

lemma binary64_error:
  assumes "0 < x"
  shows "\<bar>binary64 x - x\<bar> \<le> x / 2 ^ 53"
proof -
  define e where "e = \<lfloor>log 2 \<bar>x\<bar>\<rfloor>"
  define ulp :: real where "ulp = 2 powr (of_int e - 52)"
  have ulp_pos: "0 < ulp" by (simp add: ulp_def)
  have "of_int e \<le> log 2 x" using assms by (simp add: e_def)
  then have "2 powr (of_int e) \<le> 2 powr (log 2 x)" by simp
  then have lo: "2 powr (of_int e) \<le> x" using assms by simp
  have ulp_eq: "ulp = 2 powr (of_int e) / 2 ^ 52"
    by (simp add: ulp_def powr_diff powr_realpow[symmetric])
  have b: "binary64 x = of_int (round_half_even (x / ulp)) * ulp"
    using assms by (simp add: binary64_def e_def ulp_def Let_def)
  have "binary64 x - x = (of_int (round_half_even (x / ulp)) - x / ulp) * ulp"
    using ulp_pos unfolding b by (simp add: left_diff_distrib)
  then have "\<bar>binary64 x - x\<bar> = \<bar>of_int (round_half_even (x / ulp)) - x / ulp\<bar> * ulp"
    using ulp_pos by (simp add: abs_mult)
  also have "\<dots> \<le> 1 / 2 * ulp"
    using round_half_even_near[of "x / ulp"] ulp_pos by (intro mult_right_mono) auto
  also have "\<dots> = 2 powr (of_int e) / 2 ^ 53" by (simp add: ulp_eq)
  also have "\<dots> \<le> x / 2 ^ 53" using lo by (simp add: divide_right_mono)
  finally show ?thesis .
qed

lemma binary64_0: "binary64 0 = 0"
  by (simp add: binary64_def)

lemma percent_error:
  assumes "0 < x" "x \<le> 1"
  shows "\<bar>js_mul (binary64 x) 100 - 100 * x\<bar> \<le> 300 / 2 ^ 53"
proof -
  let ?q = "binary64 x"
  have q: "\<bar>?q - x\<bar> \<le> x / 2 ^ 53" using assms(1) by (rule binary64_error)
  have "x / 2 ^ 53 < x" using assms(1) by (simp add: field_simps)
  with q have q_pos: "0 < ?q" by linarith
  have q_le: "?q \<le> 2 * x" using q assms(1) \<open>x / 2 ^ 53 < x\<close> by linarith
  have "0 < ?q * 100" using q_pos by simp
  then have "\<bar>binary64 (?q * 100) - ?q * 100\<bar> \<le> ?q * 100 / 2 ^ 53" by (rule binary64_error)
  also have "\<dots> \<le> 2 * x * 100 / 2 ^ 53" using q_le by (simp add: divide_right_mono)
  finally have p: "\<bar>binary64 (?q * 100) - ?q * 100\<bar> \<le> 200 * x / 2 ^ 53" by simp
  have "binary64 (?q * 100) - 100 * x = (binary64 (?q * 100) - ?q * 100) + 100 * (?q - x)"
    by simp
  then have "\<bar>binary64 (?q * 100) - 100 * x\<bar>
      \<le> \<bar>binary64 (?q * 100) - ?q * 100\<bar> + \<bar>100 * (?q - x)\<bar>"
    by (simp only: abs_triangle_ineq)
  moreover have "\<bar>100 * (?q - x)\<bar> = 100 * \<bar>?q - x\<bar>"
    by (simp only: abs_mult abs_numeral)
  ultimately have "\<bar>binary64 (?q * 100) - 100 * x\<bar>
      \<le> \<bar>binary64 (?q * 100) - ?q * 100\<bar> + 100 * \<bar>?q - x\<bar>"
    by (simp only:)
  also have "\<dots> \<le> 200 * x / 2 ^ 53 + 100 * (x / 2 ^ 53)"
    using p q by (intro add_mono mult_left_mono) simp_all
  also have "\<dots> = 300 * x / 2 ^ 53" by simp
  also have "\<dots> \<le> 300 / 2 ^ 53" using assms(2) by (simp add: divide_right_mono)
  finally show ?thesis by (simp add: js_mul_def)
qed

lemma percent_nearest:
  fixes c t :: nat
  assumes "c \<le> t" "0 < t" "t < 2 ^ 32"
  shows "\<bar>real_of_int (Math_round (js_mul (js_div (real c) (real t)) 100))
           - 100 * real c / real t\<bar> \<le> 1 / 2"
proof (cases "c = 0")
  case True
  then show ?thesis by (simp add: js_div_def js_mul_def binary64_0 Math_round_def)
next
  case False
  define x :: real where "x = real c / real t"
  define p where "p = js_mul (binary64 x) 100"
  define r where "r = Math_round p"
  have x: "0 < x" "x \<le> 1" using False assms by (simp_all add: x_def)
  have err: "\<bar>p - 100 * x\<bar> \<le> 300 / 2 ^ 53" unfolding p_def using x by (rule percent_error)
  have r1: "real_of_int r \<le> p + 1 / 2" and r2: "p + 1 / 2 < real_of_int r + 1"
    unfolding r_def Math_round_def by linarith+
  have t_real: "real t < 2 ^ 32" using assms(3) by (metis of_nat_less_iff of_nat_numeral of_nat_power)
  have small: "300 / 2 ^ 53 < 1 / (2 * real t)"
  proof -
    have "300 * (2 * real t) < 300 * (2 * 2 ^ 32)" using t_real by simp
    also have "\<dots> < (2::real) ^ 53" by simp
    finally have "300 * (2 * real t) < (2::real) ^ 53" .
    then show ?thesis using assms(2) by (simp add: field_simps)
  qed
  have tx: "real t * x = real c" using assms(2) by (simp add: x_def)
  have upper: "real_of_int r - 100 * x \<le> 1 / 2"
  proof (rule ccontr)
    assume "\<not> ?thesis"
    then have "1 / 2 < real_of_int r - 100 * x" by simp
    then have "real t * (1 / 2) < real t * (real_of_int r - 100 * x)"
      using assms(2) by (simp only: mult_less_cancel_left_pos of_nat_0_less_iff)
    then have "real t < 2 * real t * real_of_int r - 200 * (real t * x)"
      by (simp add: algebra_simps)
    then have "real_of_int (int t) < real_of_int (2 * int t * r - 200 * int c)"
      unfolding tx by simp
    then have "int t < 2 * int t * r - 200 * int c" by (simp only: of_int_less_iff)
    then have "int t + 1 \<le> 2 * int t * r - 200 * int c" by simp
    then have "real_of_int (int t + 1) \<le> real_of_int (2 * int t * r - 200 * int c)"
      by (simp only: of_int_le_iff)
    then have "real t + 1 \<le> 2 * real t * real_of_int r - 200 * (real t * x)"
      unfolding tx by simp
    then have "real t + 1 \<le> 2 * real t * (real_of_int r - 100 * x)"
      by (simp add: algebra_simps)
    then have "(real t + 1) / (2 * real t) \<le> real_of_int r - 100 * x"
      using assms(2) by (simp add: field_simps)
    moreover have "(real t + 1) / (2 * real t) = 1 / 2 + 1 / (2 * real t)"
      using assms(2) by (simp add: field_simps)
    ultimately have "1 / 2 + 1 / (2 * real t) \<le> real_of_int r - 100 * x" by simp
    with r1 err small show False by linarith
  qed
  have lower: "100 * x - real_of_int r \<le> 1 / 2"
  proof (rule ccontr)
    assume "\<not> ?thesis"
    then have "1 / 2 < 100 * x - real_of_int r" by simp
    then have "real t * (1 / 2) < real t * (100 * x - real_of_int r)"
      using assms(2) by (simp only: mult_less_cancel_left_pos of_nat_0_less_iff)
    then have "real t < 200 * (real t * x) - 2 * real t * real_of_int r"
      by (simp add: algebra_simps)
    then have "real_of_int (int t) < real_of_int (200 * int c - 2 * int t * r)"
      unfolding tx by simp
    then have "int t < 200 * int c - 2 * int t * r" by (simp only: of_int_less_iff)
    then have "int t + 1 \<le> 200 * int c - 2 * int t * r" by simp
    then have "real_of_int (int t + 1) \<le> real_of_int (200 * int c - 2 * int t * r)"
      by (simp only: of_int_le_iff)
    then have "real t + 1 \<le> 200 * (real t * x) - 2 * real t * real_of_int r"
      unfolding tx by simp
    then have "real t + 1 \<le> 2 * real t * (100 * x - real_of_int r)"
      by (simp add: algebra_simps)
    then have "(real t + 1) / (2 * real t) \<le> 100 * x - real_of_int r"
      using assms(2) by (simp add: field_simps)
    moreover have "(real t + 1) / (2 * real t) = 1 / 2 + 1 / (2 * real t)"
      using assms(2) by (simp add: field_simps)
    ultimately have "1 / 2 + 1 / (2 * real t) \<le> 100 * x - real_of_int r" by simp
    with r2 err small show False by linarith
  qed
  from upper lower have "\<bar>real_of_int r - 100 * x\<bar> \<le> 1 / 2" by linarith
  then show ?thesis by (simp add: r_def p_def x_def js_div_def)
qed

lemma round_half_even_down:
  assumes "of_int f \<le> r" "r - of_int f < 1 / 2"
  shows "round_half_even r = f"
proof -
  have "\<lfloor>r\<rfloor> = f" using assms by linarith
  with assms show ?thesis by (simp add: round_half_even_def)
qed

lemma binary64_at:
  assumes "0 < x" and "2 powr (of_int e) \<le> x" and "x < 2 powr (of_int e + 1)"
    and "2 powr (of_int e - 52) = u" and "round_half_even (x / u) = m"
  shows "binary64 x = of_int m * u"
proof -
  have "\<lfloor>log 2 x\<rfloor> = e"
    using assms(1,2,3) by (simp add: floor_log_eq_powr_iff)
  with assms show ?thesis by (simp add: binary64_def Let_def)
qed

lemma pow2_m1: "2 powr (of_int (- 1)) = (1 / 2 :: real)"
  by (simp add: powr_minus_divide)

lemma pow2_m53: "2 powr (of_int (- 1) - 52) = (1 / 2 ^ 53 :: real)"
proof -
  have "(2::real) powr (of_int (- 1) - 52) = 2 powr (- real 53)" by simp
  also have "\<dots> = 1 / 2 powr (real 53)" by (rule powr_minus_divide)
  also have "\<dots> = 1 / 2 ^ 53" by (simp only: powr_realpow zero_less_numeral)
  finally show ?thesis .
qed

lemma pow2_5: "2 powr (of_int 5) = (32 :: real)" "2 powr (of_int 5 + 1) = (64 :: real)"
proof -
  have "(2::real) powr (of_int 5) = 2 powr (real 5)" by simp
  also have "\<dots> = 2 ^ 5" by (simp only: powr_realpow zero_less_numeral)
  finally show "2 powr (of_int 5) = (32 :: real)" by simp
  have "(2::real) powr (of_int 5 + 1) = 2 powr (real 6)" by simp
  also have "\<dots> = 2 ^ 6" by (simp only: powr_realpow zero_less_numeral)
  finally show "2 powr (of_int 5 + 1) = (64 :: real)" by simp
qed

lemma pow2_m47: "2 powr (of_int 5 - 52) = (1 / 2 ^ 47 :: real)"
proof -
  have "(2::real) powr (of_int 5 - 52) = 2 powr (- real 47)" by simp
  also have "\<dots> = 1 / 2 powr (real 47)" by (rule powr_minus_divide)
  also have "\<dots> = 1 / 2 ^ 47" by (simp only: powr_realpow zero_less_numeral)
  finally show ?thesis .
qed

lemma js_div_23_40: "js_div 23 40 = 5179139571476070 / 2 ^ 53"
proof -
  have r: "round_half_even (23 / 40 / (1 / 2 ^ 53)) = 5179139571476070"
    by (rule round_half_even_down) simp_all
  have "binary64 (23 / 40) = of_int 5179139571476070 * (1 / 2 ^ 53)"
    by (rule binary64_at[where e = "- 1", OF _ _ _ pow2_m53 r]) (simp_all add: pow2_m1)
  then show ?thesis by (simp add: js_div_def)
qed

lemma js_mul_23_40: "js_mul (js_div 23 40) 100 = 8092405580431359 / 2 ^ 47"
proof -
  have r: "round_half_even (5179139571476070 / 2 ^ 53 * 100 / (1 / 2 ^ 47)) = 8092405580431359"
    by (rule round_half_even_down) simp_all
  have "binary64 (5179139571476070 / 2 ^ 53 * 100) = of_int 8092405580431359 * (1 / 2 ^ 47)"
    by (rule binary64_at[where e = 5, OF _ _ _ pow2_m47 r]) (simp_all add: pow2_5)
  then show ?thesis by (simp add: js_mul_def js_div_23_40)
qed

lemma percent_23_of_40: "Math_round (js_mul (js_div 23 40) 100) = 57"
  unfolding js_mul_23_40 Math_round_def by (rule floor_unique) simp_all

lemma completedToday_card:
  "completedToday today hs = card {i. i < length hs \<and> today \<in> set (completedDays (hs ! i))}"
  by (simp add: completedToday_def arr_includes_def length_filter_conv_card)

lemma completionRate_nearest:
  assumes "0 < totalHabits hs" "totalHabits hs < 2 ^ 32"
  shows "\<bar>real_of_int (completionRate today hs)
           - 100 * real (completedToday today hs) / real (totalHabits hs)\<bar> \<le> 1 / 2"
proof -
  have "completedToday today hs \<le> totalHabits hs"
    by (simp add: completedToday_def totalHabits_def)
  from percent_nearest[OF this assms] assms(1) show ?thesis
    by (simp add: completionRate_def)
qed

text \<open>
  Claim C6.  \<open>completedToday\<close> is the number of habits whose \<open>completedDays\<close> holds
  today's date and \<open>totalHabits\<close> the number of habits.  With no habit the rate is 0 (no
  division takes place); otherwise, for an array of fewer than \<open>2 ^ 32\<close> habits (every
  JavaScript array), the rate computed in doubles is within one half of
  \<open>100 * completedToday / totalHabits\<close>: it is that percentage rounded to a nearest
  integer.  With three habits of which two are completed today it is 67.  Where the exact
  percentage lies midway between two integers either is nearest: 23 of 40 habits give 57,
  the doubles falling just below 57.5.
\<close>

theorem completionRate_spec:
  "totalHabits hs = length hs \<and>
   completedToday today hs =
     card {i. i < length hs \<and> today \<in> set (completedDays (hs ! i))} \<and>
   (totalHabits hs = 0 \<longrightarrow> completionRate today hs = 0) \<and>
   (0 < totalHabits hs \<and> totalHabits hs < 2 ^ 32 \<longrightarrow>
      \<bar>real_of_int (completionRate today hs)
        - 100 * real (completedToday today hs) / real (totalHabits hs)\<bar> \<le> 1 / 2) \<and>
   (totalHabits hs = 3 \<and> completedToday today hs = 2 \<longrightarrow> completionRate today hs = 67) \<and>
   (totalHabits hs = 40 \<and> completedToday today hs = 23 \<longrightarrow> completionRate today hs = 57)"
proof (intro conjI impI)
  show "totalHabits hs = length hs" by (simp add: totalHabits_def)
next
  show "completedToday today hs =
      card {i. i < length hs \<and> today \<in> set (completedDays (hs ! i))}"
    by (rule completedToday_card)
next
  assume "totalHabits hs = 0"
  then show "completionRate today hs = 0" by (simp add: completionRate_def)
next
  assume "0 < totalHabits hs \<and> totalHabits hs < 2 ^ 32"
  then have "0 < totalHabits hs" "totalHabits hs < 2 ^ 32" by blast+
  then show "\<bar>real_of_int (completionRate today hs)
        - 100 * real (completedToday today hs) / real (totalHabits hs)\<bar> \<le> 1 / 2"
    by (rule completionRate_nearest)
next
  assume a: "totalHabits hs = 3 \<and> completedToday today hs = 2"
  then have "0 < totalHabits hs" "totalHabits hs < 2 ^ 32" by simp_all
  from completionRate_nearest[OF this, of today] a
  have "\<bar>real_of_int (completionRate today hs) - 200 / 3\<bar> \<le> 1 / 2" by simp
  then have "66 < completionRate today hs" "completionRate today hs < 68" by linarith+
  then show "completionRate today hs = 67" by simp
next
  assume "totalHabits hs = 40 \<and> completedToday today hs = 23"
  then show "completionRate today hs = 57"
    by (simp add: completionRate_def percent_23_of_40)
qed

theorem completionRate_spec_witness:
  "totalHabits three_habits = 3 \<and> completedToday ''2024-05-02'' three_habits = 2 \<and>
   card {i. i < length three_habits \<and>
            ''2024-05-02'' \<in> set (completedDays (three_habits ! i))} = 2 \<and>
   completionRate ''2024-05-02'' three_habits = 67 \<and>
   totalHabits [] = 0 \<and> completionRate ''2024-05-02'' [] = 0 \<and>
   \<bar>real_of_int (completionRate ''2024-05-02'' three_habits)
        - 100 * real (completedToday ''2024-05-02'' three_habits)
          / real (totalHabits three_habits)\<bar> \<le> 1 / 2 \<and>
   totalHabits forty_habits = 40 \<and> completedToday ''2024-05-02'' forty_habits = 23 \<and>
   completionRate ''2024-05-02'' forty_habits = 57"
proof -
  have a: "totalHabits three_habits = 3"
    by (simp add: three_habits_def totalHabits_def)
  have b: "completedToday ''2024-05-02'' three_habits = 2"
    by (simp add: three_habits_def completedToday_def arr_includes_def)
  have c: "totalHabits [] = 0" by (simp add: totalHabits_def)
  have d: "totalHabits forty_habits = 40"
    by (simp add: forty_habits_def totalHabits_def)
  have e: "completedToday ''2024-05-02'' forty_habits = 23"
    by (simp add: forty_habits_def completedToday_def arr_includes_def filter_map o_def)
  note at_three = completionRate_spec[of three_habits "''2024-05-02''"]
  from at_three have "completedToday ''2024-05-02'' three_habits =
      card {i. i < length three_habits \<and>
               ''2024-05-02'' \<in> set (completedDays (three_habits ! i))}" by blast
  with b have f: "card {i. i < length three_habits \<and>
               ''2024-05-02'' \<in> set (completedDays (three_habits ! i))} = 2" by simp
  from at_three a b have g: "completionRate ''2024-05-02'' three_habits = 67" by blast
  have "0 < totalHabits three_habits \<and> totalHabits three_habits < 2 ^ 32"
    using a by simp
  with at_three have h: "\<bar>real_of_int (completionRate ''2024-05-02'' three_habits)
        - 100 * real (completedToday ''2024-05-02'' three_habits)
          / real (totalHabits three_habits)\<bar> \<le> 1 / 2" by blast
  from completionRate_spec[of "[]" "''2024-05-02''"] c
  have i: "completionRate ''2024-05-02'' [] = 0" by blast
  from completionRate_spec[of forty_habits "''2024-05-02''"] d e
  have j: "completionRate ''2024-05-02'' forty_habits = 57" by blast
  from a b c d e f g h i j show ?thesis by blast
qed

section \<open>The completion lists hold no date twice\<close>

lemma find_Some_D: "find P xs = Some x \<Longrightarrow> x \<in> set xs \<and> P x"
  by (induction xs) (auto split: if_splits)

lemma join_distinct:
  "habit_completions_UNIQUE cs \<Longrightarrow>
   distinct (map c_date (filter (\<lambda>c. c_habit_id c = k) cs))"
  unfolding habit_completions_UNIQUE_def
  by (induction cs) (auto simp: rev_image_eqI)

lemma habitsWithCompletions_ids:
  "map habit_id (habitsWithCompletions rows cs) = map h_id rows"
  by (simp add: habitsWithCompletions_def comp_def)

lemma habitsWithCompletions_no_dup:
  "habit_completions_UNIQUE cs \<Longrightarrow> no_duplicate_dates (habitsWithCompletions rows cs)"
  by (simp add: habitsWithCompletions_def no_duplicate_dates_def list_all_iff join_distinct)

lemma fetch_habits:
  "habits (state (useHabitsDb_fetchData usr hr cr sr tr nr st)) = habits st \<or>
   habits (state (useHabitsDb_fetchData usr hr cr sr tr nr st)) = [] \<or>
   habits (state (useHabitsDb_fetchData usr hr cr sr tr nr st)) =
     habitsWithCompletions (orEmpty (data hr)) (orEmpty (data cr))"
  by (simp add: useHabitsDb_fetchData_def fetch_failed_def Let_def split: option.splits)

lemma hook_inv_Nil: "distinct_ids [] \<and> no_duplicate_dates []"
  by (simp add: distinct_ids_def no_duplicate_dates_def)

lemma fetchData_inv:
  assumes "hook_inv st" "habits_PRIMARY_KEY (orEmpty (data hr))"
    "habit_completions_UNIQUE (orEmpty (data cr))"
  shows "hook_inv (state (useHabitsDb_fetchData usr hr cr sr tr nr st))"
proof -
  have joined: "distinct_ids (habitsWithCompletions (orEmpty (data hr)) (orEmpty (data cr))) \<and>
      no_duplicate_dates (habitsWithCompletions (orEmpty (data hr)) (orEmpty (data cr)))"
    using assms(2,3)
    by (simp add: distinct_ids_def habitsWithCompletions_ids habits_PRIMARY_KEY_def
        habitsWithCompletions_no_dup)
  from fetch_habits[of usr hr cr sr tr nr st] show ?thesis
    unfolding hook_inv_def using assms(1) joined hook_inv_Nil
    by (auto simp: hook_inv_def)
qed

lemma addHabit_inv:
  assumes "hook_inv st"
    "case data res of None \<Rightarrow> True | Some d \<Rightarrow> h_id d \<notin> set (map habit_id (habits st))"
  shows "hook_inv (state (useHabitsDb_addHabit usr res name color st))"
  using assms
  by (auto simp: useHabitsDb_addHabit_def hook_inv_def unchanged_def distinct_ids_def
      no_duplicate_dates_def split: option.splits)

lemma spread_Habit_ids:
  "map habit_id (map (\<lambda>h. if habit_id h = ident then spread_Habit h u else h) hs) =
   map habit_id hs"
  by (induction hs) (auto simp: spread_Habit_def)

lemma updateHabit_inv:
  assumes "hook_inv st" "duplicate_free_updates updates"
  shows "hook_inv (state (useHabitsDb_updateHabit usr res ident updates st))"
  using assms
  by (auto simp: useHabitsDb_updateHabit_def hook_inv_def unchanged_def distinct_ids_def
      no_duplicate_dates_def spread_Habit_ids Let_def list_all_iff spread_Habit_def
      duplicate_free_updates_def
      simp del: map_map split: option.splits)

lemma deleteHabit_inv:
  assumes "hook_inv st"
  shows "hook_inv (state (useHabitsDb_deleteHabit usr res ident st))"
  using assms
  by (auto simp: useHabitsDb_deleteHabit_def hook_inv_def unchanged_def distinct_ids_def
      no_duplicate_dates_def distinct_map_filter list_all_iff split: option.splits)

lemma toggle_ids:
  "map habit_id (map (\<lambda>h. if habit_id h \<noteq> k then h else h\<lparr>completedDays := f h\<rparr>) hs) =
   map habit_id hs"
  by (induction hs) auto

lemma toggleHabitDay_inv:
  assumes "hook_inv st"
  shows "hook_inv (state (useHabitsDb_toggleHabitDay usr res (habits st) habitId date st))"
proof (cases usr)
  case None
  with assms show ?thesis by (simp add: useHabitsDb_toggleHabitDay_def unchanged_def)
next
  case (Some uid)
  show ?thesis
  proof (cases "find (\<lambda>h. habit_id h = habitId) (habits st)")
    case None
    with Some assms show ?thesis by (simp add: useHabitsDb_toggleHabitDay_def unchanged_def)
  next
    case found: (Some habit)
    then have mem: "habit \<in> set (habits st)" and hid: "habit_id habit = habitId"
      using find_Some_D[OF found] by auto
    have uniq: "\<And>h. h \<in> set (habits st) \<Longrightarrow> habit_id h = habitId \<Longrightarrow> h = habit"
      using assms mem hid unfolding hook_inv_def distinct_ids_def
      by (metis distinct_map inj_onD)
    show ?thesis
      using assms Some found uniq
      by (auto simp: useHabitsDb_toggleHabitDay_def hook_inv_def Let_def distinct_ids_def
          toggle_ids no_duplicate_dates_def list_all_iff arr_includes_def simp del: map_map)
  qed
qed

lemma step_inv:
  assumes "hook_inv st" "store_consistent st e" "updates_allowed duplicate_free_updates e"
    "current_closure st e"
  shows "hook_inv (step st e)"
proof (cases e)
  case (Call_fetchData usr hr cr sr tr nr)
  with assms show ?thesis by (simp add: fetchData_inv)
next
  case (Call_addHabit usr res name color)
  with assms show ?thesis by (simp add: addHabit_inv)
next
  case (Call_updateHabit usr res ident updates)
  with assms show ?thesis by (simp add: updateHabit_inv)
next
  case (Call_deleteHabit usr res ident)
  with assms show ?thesis by (simp add: deleteHabit_inv)
next
  case (Call_toggleHabitDay usr res rendered habitId date)
  with assms show ?thesis by (simp add: toggleHabitDay_inv)
next
  case (Call_addSleepEntry usr res date hrs)
  with assms show ?thesis
    by (simp add: useHabitsDb_addSleepEntry_def hook_inv_def unchanged_def split: option.splits)
next
  case (Call_addTask usr res ttl date color)
  with assms show ?thesis
    by (simp add: useHabitsDb_addTask_def hook_inv_def unchanged_def split: option.splits)
next
  case (Call_updateTask usr res ident updates)
  with assms show ?thesis
    by (simp add: useHabitsDb_updateTask_def hook_inv_def unchanged_def split: option.splits)
next
  case (Call_deleteTask usr res ident)
  with assms show ?thesis
    by (simp add: useHabitsDb_deleteTask_def hook_inv_def unchanged_def split: option.splits)
next
  case (Call_addNote usr res body date)
  with assms show ?thesis
    by (simp add: useHabitsDb_addNote_def hook_inv_def unchanged_def split: option.splits)
next
  case (Call_updateNote usr res ident body)
  with assms show ?thesis
    by (simp add: useHabitsDb_updateNote_def hook_inv_def unchanged_def split: option.splits)
next
  case (Call_deleteNote usr res ident)
  with assms show ?thesis
    by (simp add: useHabitsDb_deleteNote_def hook_inv_def unchanged_def split: option.splits)
qed

lemma run_inv:
  "hook_inv st \<Longrightarrow> admissible duplicate_free_updates st evs \<Longrightarrow>
   current_closures st evs \<Longrightarrow> hook_inv (run st evs)"
  by (induction evs arbitrary: st) (auto simp: step_inv)

lemma initial_inv: "hook_inv initial_state"
  by (simp add: hook_inv_def initial_state_def hook_inv_Nil)

text \<open>
  Claim C1, as amended.  In every state the hook reaches from the empty state by loads and
  operations, no habit's \<open>completedDays\<close> holds a date twice, provided the replies of the
  store respect the schema (primary key of \<open>habits\<close>, \<open>UNIQUE(habit_id, date)\<close> of
  \<open>habit_completions\<close>, fresh key of an inserted habit), no \<open>updateHabit\<close> call passes
  a \<open>completedDays\<close> list that itself holds a date twice, and every \<open>toggleHabitDay\<close>
  call is made through the callback of the render showing the state it patches (one call
  at a time, none in flight while another update lands).  Each single call preserves the
  invariant (with pairwise different identifiers) under the same provisos.
\<close>

theorem completedDays_no_duplicates:
  "(hook_inv st \<and> store_consistent st e \<and> updates_allowed duplicate_free_updates e \<and>
    current_closure st e
      \<longrightarrow> hook_inv (step st e)) \<and>
   (admissible duplicate_free_updates initial_state evs \<and> current_closures initial_state evs
      \<longrightarrow> no_duplicate_dates (habits (run initial_state evs)))"
proof (intro conjI impI)
  assume "hook_inv st \<and> store_consistent st e \<and> updates_allowed duplicate_free_updates e \<and>
    current_closure st e"
  then show "hook_inv (step st e)" by (simp add: step_inv)
next
  assume "admissible duplicate_free_updates initial_state evs \<and>
    current_closures initial_state evs"
  then have "hook_inv (run initial_state evs)" by (simp add: run_inv[OF initial_inv])
  then show "no_duplicate_dates (habits (run initial_state evs))" by (simp add: hook_inv_def)
qed

theorem completedDays_no_duplicates_witness:
  "hook_inv initial_state \<and>
   store_consistent initial_state example_load \<and>
   updates_allowed duplicate_free_updates example_load \<and>
   current_closure initial_state example_load \<and>
   hook_inv (step initial_state example_load) \<and>
   admissible duplicate_free_updates initial_state example_run \<and>
   current_closures initial_state example_run \<and>
   no_duplicate_dates (habits (run initial_state example_run)) \<and>
   map completedDays (habits (run initial_state load_and_add)) =
     [[''2024-05-01'', ''2024-05-02''], [''2024-05-01''], []] \<and>
   map completedDays (habits (run initial_state example_run)) =
     [[''2024-05-02'', ''2024-05-03''], []]"
proof -
  have a: "admissible duplicate_free_updates initial_state example_run"
    by (simp add: run_defs example_defs hook_defs habits_PRIMARY_KEY_def
        habit_completions_UNIQUE_def duplicate_free_updates_def)
  have a': "current_closures initial_state example_run"
    by (simp add: run_defs example_defs hook_defs)
  have b: "hook_inv initial_state \<and> store_consistent initial_state example_load \<and>
      updates_allowed duplicate_free_updates example_load \<and>
      current_closure initial_state example_load"
    by (simp add: run_defs example_defs hook_inv_def hook_inv_Nil
        habits_PRIMARY_KEY_def habit_completions_UNIQUE_def orEmpty_def)
  have c: "map completedDays (habits (run initial_state load_and_add)) =
     [[''2024-05-01'', ''2024-05-02''], [''2024-05-01''], []]"
    by (simp add: run_defs example_defs hook_defs)
  have d: "map completedDays (habits (run initial_state example_run)) =
     [[''2024-05-02'', ''2024-05-03''], []]"
    by (simp add: run_defs example_defs hook_defs)
  from completedDays_no_duplicates[of initial_state example_load example_run] a a' b c d
  show ?thesis by blast
qed

text \<open>
  Claim C1 as stated fails, in two ways.  \<open>updateHabit\<close> spreads every key of \<open>updates\<close>
  over the habit, \<open>completedDays\<close> included, so a list that holds a date twice lands in
  local state.  And \<open>toggleHabitDay\<close> decides between removing and adding from the
  habits of its render, not from the list it patches: a call made while the habit had no
  completed day appends the day to a list that has received it since.
\<close>

theorem completedDays_no_duplicates_counterexample:
  "admissible any_updates initial_state duplicating_run \<and>
   current_closures initial_state duplicating_run \<and>
   map completedDays (habits (run initial_state duplicating_run)) =
     [[''2024-05-01'', ''2024-05-01'']] \<and>
   \<not> no_duplicate_dates (habits (run initial_state duplicating_run)) \<and>
   admissible duplicate_free_updates initial_state stale_toggle_run \<and>
   map completedDays (habits (run initial_state added_run)) = [[]] \<and>
   map completedDays (habits (run initial_state stale_toggle_run)) =
     [[''2024-05-01'', ''2024-05-01'']] \<and>
   \<not> no_duplicate_dates (habits (run initial_state stale_toggle_run))"
proof -
  have a: "admissible any_updates initial_state duplicating_run \<and>
      current_closures initial_state duplicating_run"
    by (simp add: run_defs example_defs any_updates_def hook_defs)
  have b: "map completedDays (habits (run initial_state duplicating_run)) =
     [[''2024-05-01'', ''2024-05-01'']]"
    by (simp add: run_defs example_defs hook_defs)
  have c: "admissible duplicate_free_updates initial_state stale_toggle_run"
    by (simp add: run_defs example_defs duplicate_free_updates_def hook_defs)
  have d: "map completedDays (habits (run initial_state added_run)) = [[]]"
    by (simp add: run_defs example_defs hook_defs)
  have e: "map completedDays (habits (run initial_state stale_toggle_run)) =
     [[''2024-05-01'', ''2024-05-01'']]"
    by (simp add: run_defs example_defs hook_defs)
  have f: "\<not> no_duplicate_dates (habits (run initial_state duplicating_run))"
    by (simp add: run_defs example_defs hook_defs no_duplicate_dates_def)
  have g: "\<not> no_duplicate_dates (habits (run initial_state stale_toggle_run))"
    by (simp add: run_defs example_defs hook_defs no_duplicate_dates_def)
  from a b c d e f g show ?thesis by blast
qed

section \<open>Streak\<close>

lemma back_Suc: "date - int (Suc k) = date - 1 - int k"
  by simp

lemma streak_loop_stops:
  "\<not> anyCompleted fmt hs (date - int n) \<Longrightarrow>
   (\<forall>k<n. anyCompleted fmt hs (date - int k)) \<Longrightarrow>
   streak_loop fmt hs date s = Some (s + n)"
proof (induction n arbitrary: date s)
  case 0
  then show ?case by (subst streak_loop.simps) simp
next
  case (Suc n)
  have here: "anyCompleted fmt hs date" using Suc.prems(2)[rule_format, of 0] by simp
  have stop: "\<not> anyCompleted fmt hs ((date - 1) - int n)"
    using Suc.prems(1) unfolding back_Suc .
  have before: "\<forall>k<n. anyCompleted fmt hs ((date - 1) - int k)"
  proof (intro allI impI)
    fix k assume "k < n"
    then have "anyCompleted fmt hs (date - int (Suc k))" using Suc.prems(2) by blast
    then show "anyCompleted fmt hs ((date - 1) - int k)" unfolding back_Suc .
  qed
  have "streak_loop fmt hs (date - 1) (s + 1) = Some ((s + 1) + n)"
    by (rule Suc.IH[OF stop before])
  with here show ?case by (subst streak_loop.simps) simp
qed

lemma streak_loop_result:
  assumes "streak_loop fmt hs date s = Some r"
  shows "\<exists>n. r = s + n \<and> \<not> anyCompleted fmt hs (date - int n) \<and>
       (\<forall>k<n. anyCompleted fmt hs (date - int k))"
proof (rule streak_loop.raw_induct
    [where P = "\<lambda>fmt hs date s r. \<exists>n. r = s + n \<and> \<not> anyCompleted fmt hs (date - int n) \<and>
       (\<forall>k<n. anyCompleted fmt hs (date - int k))", OF _ assms])
  fix loop :: "(int \<Rightarrow> string) \<Rightarrow> Habit list \<Rightarrow> int \<Rightarrow> nat \<Rightarrow> nat option"
  fix fmt hs date s r
  assume IH: "\<And>fmt hs date s r. loop fmt hs date s = Some r \<Longrightarrow>
      \<exists>n. r = s + n \<and> \<not> anyCompleted fmt hs (date - int n) \<and>
       (\<forall>k<n. anyCompleted fmt hs (date - int k))"
  assume body: "(if \<not> anyCompleted fmt hs date then Some s
      else loop fmt hs (date - 1) (s + 1)) = Some r"
  show "\<exists>n. r = s + n \<and> \<not> anyCompleted fmt hs (date - int n) \<and>
       (\<forall>k<n. anyCompleted fmt hs (date - int k))"
  proof (cases "anyCompleted fmt hs date")
    case False
    with body show ?thesis by (intro exI[of _ 0]) simp
  next
    case True
    with body have "loop fmt hs (date - 1) (s + 1) = Some r" by simp
    from IH[OF this] obtain n where n: "r = s + 1 + n"
      "\<not> anyCompleted fmt hs (date - 1 - int n)"
      "\<forall>k<n. anyCompleted fmt hs (date - 1 - int k)" by blast
    have "\<forall>k<Suc n. anyCompleted fmt hs (date - int k)"
    proof (intro allI impI)
      fix k assume k: "k < Suc n"
      show "anyCompleted fmt hs (date - int k)"
      proof (cases k)
        case 0 with True show ?thesis by simp
      next
        case (Suc j)
        with k have "j < n" by simp
        with n(3) have "anyCompleted fmt hs (date - 1 - int j)" by simp
        then show ?thesis unfolding Suc back_Suc .
      qed
    qed
    moreover have "\<not> anyCompleted fmt hs (date - int (Suc n))" using n(2) unfolding back_Suc .
    moreover have "r = s + Suc n" using n(1) by simp
    ultimately show ?thesis by blast
  qed
qed

lemma streak_loop_iff:
  "streak_loop fmt hs date 0 = Some n \<longleftrightarrow>
   (\<forall>k<n. anyCompleted fmt hs (date - int k)) \<and> \<not> anyCompleted fmt hs (date - int n)"
proof
  assume "streak_loop fmt hs date 0 = Some n"
  from streak_loop_result[OF this]
  show "(\<forall>k<n. anyCompleted fmt hs (date - int k)) \<and> \<not> anyCompleted fmt hs (date - int n)"
    by simp
next
  assume "(\<forall>k<n. anyCompleted fmt hs (date - int k)) \<and> \<not> anyCompleted fmt hs (date - int n)"
  then have "streak_loop fmt hs date 0 = Some (0 + n)"
    by (intro streak_loop_stops) simp_all
  then show "streak_loop fmt hs date 0 = Some n" by simp
qed

lemma anyCompleted_Nil: "\<not> anyCompleted fmt [] date"
  by (simp add: anyCompleted_def arr_some_def)

lemma anyCompleted_iff:
  "anyCompleted fmt hs date \<longleftrightarrow> (\<exists>h\<in>set hs. fmt date \<in> set (completedDays h))"
  by (simp add: anyCompleted_def arr_some_def arr_includes_def list_ex_iff)

lemma calculateStreak_iff:
  "calculateStreak fmt hs today = Some n \<longleftrightarrow>
   (\<forall>k<n. anyCompleted fmt hs (today - int k)) \<and> \<not> anyCompleted fmt hs (today - int n)"
proof (cases "hs = []")
  case True
  have "(\<forall>k<n. False) \<longleftrightarrow> n = 0" by auto
  then have "(0 = n) = (\<forall>k<n. False)" by auto
  with True show ?thesis by (simp add: calculateStreak_def anyCompleted_Nil)
next
  case False
  then show ?thesis by (simp add: calculateStreak_def streak_loop_iff)
qed

lemma some_day_without:
  assumes "inj_on fmt {..today}"
  shows "\<exists>n. \<not> anyCompleted fmt hs (today - int n)"
proof (rule ccontr)
  assume "\<not> ?thesis"
  then have all: "\<And>n. anyCompleted fmt hs (today - int n)" by blast
  let ?S = "\<Union>h\<in>set hs. set (completedDays h)"
  let ?g = "\<lambda>n::nat. fmt (today - int n)"
  have fin: "finite ?S" by simp
  have "range ?g \<subseteq> ?S" using all by (auto simp: anyCompleted_iff)
  then have "finite (range ?g)" using fin by (rule finite_subset)
  moreover have "inj ?g"
  proof (rule injI)
    fix x y assume "?g x = ?g y"
    then have "today - int x = today - int y" using assms by (simp add: inj_on_def)
    then show "x = y" by simp
  qed
  ultimately have "finite (UNIV :: nat set)" by (rule finite_imageD)
  then show False by simp
qed

lemma calculateStreak_returns:
  assumes "inj_on fmt {..today}"
  shows "\<exists>m. calculateStreak fmt hs today = Some m"
proof -
  from some_day_without[OF assms] obtain m where m: "\<not> anyCompleted fmt hs (today - int m)" by blast
  define n where "n = (LEAST m. \<not> anyCompleted fmt hs (today - int m))"
  have "\<not> anyCompleted fmt hs (today - int n)" unfolding n_def using m by (rule LeastI)
  moreover have "\<forall>k<n. anyCompleted fmt hs (today - int k)"
    unfolding n_def using not_less_Least by blast
  ultimately have "calculateStreak fmt hs today = Some n" by (simp add: calculateStreak_iff)
  then show ?thesis by blast
qed

lemma tally_inj: "inj tally"
proof (rule injI)
  fix x y assume eq: "tally x = tally y"
  then have "length (tally x) = length (tally y)" by simp
  with eq show "x = y" by (auto simp: tally_def split: if_splits)
qed

text \<open>
  Claim C3.  \<open>calculateStreak\<close> returns \<open>n\<close> exactly when each of the \<open>n\<close> days ending
  today has a habit whose \<open>completedDays\<close> holds that day's date and the day before them
  has none: with no completion today it returns 0 whatever the earlier days hold, with
  completions today and on exactly the two days before it returns 3.  The loop returns
  whenever the formatting of days up to today is one-to-one.
\<close>

theorem calculateStreak_spec:
  "(calculateStreak fmt hs today = Some n \<longleftrightarrow>
      (\<forall>k<n. anyCompleted fmt hs (today - int k)) \<and> \<not> anyCompleted fmt hs (today - int n)) \<and>
   (anyCompleted fmt hs day \<longleftrightarrow> (\<exists>h\<in>set hs. fmt day \<in> set (completedDays h))) \<and>
   (\<not> anyCompleted fmt hs today \<longrightarrow> calculateStreak fmt hs today = Some 0) \<and>
   (anyCompleted fmt hs today \<and> anyCompleted fmt hs (today - 1) \<and>
    anyCompleted fmt hs (today - 2) \<and> \<not> anyCompleted fmt hs (today - 3)
      \<longrightarrow> calculateStreak fmt hs today = Some 3) \<and>
   (inj_on fmt {..today} \<longrightarrow> (\<exists>m. calculateStreak fmt hs today = Some m))"
proof (intro conjI impI)
  show "calculateStreak fmt hs today = Some n \<longleftrightarrow>
      (\<forall>k<n. anyCompleted fmt hs (today - int k)) \<and> \<not> anyCompleted fmt hs (today - int n)"
    by (rule calculateStreak_iff)
next
  show "anyCompleted fmt hs day \<longleftrightarrow> (\<exists>h\<in>set hs. fmt day \<in> set (completedDays h))"
    by (rule anyCompleted_iff)
next
  assume "\<not> anyCompleted fmt hs today"
  then show "calculateStreak fmt hs today = Some 0" by (simp add: calculateStreak_iff)
next
  assume days: "anyCompleted fmt hs today \<and> anyCompleted fmt hs (today - 1) \<and>
    anyCompleted fmt hs (today - 2) \<and> \<not> anyCompleted fmt hs (today - 3)"
  have "\<forall>k<3. anyCompleted fmt hs (today - int k)"
  proof (intro allI impI)
    fix k :: nat assume "k < 3"
    then consider "k = 0" | "k = 1" | "k = 2" by linarith
    then show "anyCompleted fmt hs (today - int k)" using days by cases simp_all
  qed
  with days show "calculateStreak fmt hs today = Some 3" by (simp add: calculateStreak_iff)
next
  assume "inj_on fmt {..today}"
  then show "\<exists>m. calculateStreak fmt hs today = Some m" by (rule calculateStreak_returns)
qed

theorem calculateStreak_spec_witness:
  "calculateStreak may_2024 streak_habits 3 = Some 3 \<and>
   anyCompleted may_2024 streak_habits 3 \<and> anyCompleted may_2024 streak_habits (3 - 1) \<and>
   anyCompleted may_2024 streak_habits (3 - 2) \<and> \<not> anyCompleted may_2024 streak_habits (3 - 3) \<and>
   \<not> anyCompleted may_2024 streak_habits 4 \<and> anyCompleted may_2024 streak_habits (4 - 1) \<and>
   calculateStreak may_2024 streak_habits 4 = Some 0 \<and>
   inj_on tally {..2} \<and> calculateStreak tally tally_habits 2 = Some 2"
proof -
  have a: "anyCompleted may_2024 streak_habits 3 \<and> anyCompleted may_2024 streak_habits (3 - 1) \<and>
      anyCompleted may_2024 streak_habits (3 - 2) \<and> \<not> anyCompleted may_2024 streak_habits (3 - 3)"
    by (simp add: anyCompleted_def arr_some_def arr_includes_def may_2024_def streak_habits_def)
  have b: "\<not> anyCompleted may_2024 streak_habits 4 \<and> anyCompleted may_2024 streak_habits (4 - 1)"
    by (simp add: anyCompleted_def arr_some_def arr_includes_def may_2024_def streak_habits_def)
  have c: "inj_on tally {..2}" using tally_inj by (rule inj_on_subset) simp
  have d: "anyCompleted tally tally_habits 2 \<and> anyCompleted tally tally_habits (2 - int 1) \<and>
      \<not> anyCompleted tally tally_habits (2 - int 2)"
    by (simp add: anyCompleted_def arr_some_def arr_includes_def tally_def tally_habits_def)
  have e: "\<forall>k<2. anyCompleted tally tally_habits (2 - int k)"
  proof (intro allI impI)
    fix k :: nat assume "k < 2"
    then consider "k = 0" | "k = 1" by linarith
    then show "anyCompleted tally tally_habits (2 - int k)" using d by cases simp_all
  qed
  note at_3 = calculateStreak_spec[of may_2024 streak_habits 3 3 3]
  from at_3 a have f1: "calculateStreak may_2024 streak_habits 3 = Some 3" by simp
  from at_3 f1 have f: "calculateStreak may_2024 streak_habits 3 = Some 3 \<and>
      (\<forall>k<3. anyCompleted may_2024 streak_habits (3 - int k)) \<and>
      \<not> anyCompleted may_2024 streak_habits (3 - int 3)" by blast
  from calculateStreak_spec[of may_2024 streak_habits 4 0 4] b
  have g: "calculateStreak may_2024 streak_habits 4 = Some 0" by simp
  from calculateStreak_spec[of tally tally_habits 2 2 2] c d e
  have h: "calculateStreak tally tally_habits 2 = Some 2" by simp
  from a f g h b c show ?thesis by simp
qed

section \<open>Failure paths of the sync hook\<close>

text \<open>
  Claim C4.  With no authenticated owner every mutation returns the state it was given
  and issues no call; when the store rejects the write the state is the one given
  (\<open>toggleHabitDay\<close> included, whatever habits its render holds: it patches the state
  only on the branch where the call succeeded); a load with no owner empties the four
  collections and issues no call.
\<close>

theorem failure_paths_leave_state:
  "(useHabitsDb_addHabit None res_h name color st = unchanged st \<and>
    useHabitsDb_updateHabit None res ident updates st = unchanged st \<and>
    useHabitsDb_deleteHabit None res ident st = unchanged st \<and>
    useHabitsDb_toggleHabitDay None res rendered habitId date st = unchanged st \<and>
    useHabitsDb_addSleepEntry None res date hrs st = unchanged st \<and>
    useHabitsDb_addTask None res_t ttl date tcolor st = unchanged st \<and>
    useHabitsDb_updateTask None res ident tupdates st = unchanged st \<and>
    useHabitsDb_deleteTask None res ident st = unchanged st \<and>
    useHabitsDb_addNote None res_n body date st = unchanged st \<and>
    useHabitsDb_updateNote None res ident body st = unchanged st \<and>
    useHabitsDb_deleteNote None res ident st = unchanged st) \<and>
   state (unchanged st) = st \<and> requests (unchanged st) = [] \<and>
   (error res_h \<noteq> None \<longrightarrow> state (useHabitsDb_addHabit usr res_h name color st) = st) \<and>
   (error res_t \<noteq> None \<longrightarrow> state (useHabitsDb_addTask usr res_t ttl date tcolor st) = st) \<and>
   (error res_n \<noteq> None \<longrightarrow> state (useHabitsDb_addNote usr res_n body date st) = st) \<and>
   (error res \<noteq> None \<longrightarrow>
      state (useHabitsDb_updateHabit usr res ident updates st) = st \<and>
      state (useHabitsDb_deleteHabit usr res ident st) = st \<and>
      state (useHabitsDb_toggleHabitDay usr res rendered habitId date st) = st \<and>
      state (useHabitsDb_addSleepEntry usr res date hrs st) = st \<and>
      state (useHabitsDb_updateTask usr res ident tupdates st) = st \<and>
      state (useHabitsDb_deleteTask usr res ident st) = st \<and>
      state (useHabitsDb_updateNote usr res ident body st) = st \<and>
      state (useHabitsDb_deleteNote usr res ident st) = st) \<and>
   collections (state (useHabitsDb_fetchData None hr cr sr tr nr st)) = initial_local_state \<and>
   requests (useHabitsDb_fetchData None hr cr sr tr nr st) = []"
proof -
  have no_owner:
    "useHabitsDb_addHabit None res_h name color st = unchanged st"
    "useHabitsDb_updateHabit None res ident updates st = unchanged st"
    "useHabitsDb_deleteHabit None res ident st = unchanged st"
    "useHabitsDb_toggleHabitDay None res rendered habitId date st = unchanged st"
    "useHabitsDb_addSleepEntry None res date hrs st = unchanged st"
    "useHabitsDb_addTask None res_t ttl date tcolor st = unchanged st"
    "useHabitsDb_updateTask None res ident tupdates st = unchanged st"
    "useHabitsDb_deleteTask None res ident st = unchanged st"
    "useHabitsDb_addNote None res_n body date st = unchanged st"
    "useHabitsDb_updateNote None res ident body st = unchanged st"
    "useHabitsDb_deleteNote None res ident st = unchanged st"
    by (simp_all add: useHabitsDb_addHabit_def useHabitsDb_updateHabit_def
        useHabitsDb_deleteHabit_def useHabitsDb_toggleHabitDay_def useHabitsDb_addSleepEntry_def
        useHabitsDb_addTask_def useHabitsDb_updateTask_def useHabitsDb_deleteTask_def
        useHabitsDb_addNote_def useHabitsDb_updateNote_def useHabitsDb_deleteNote_def)
  have u: "state (unchanged st) = st" "requests (unchanged st) = []"
    by (simp_all add: unchanged_def)
  have inserts:
    "error res_h \<noteq> None \<longrightarrow> state (useHabitsDb_addHabit usr res_h name color st) = st"
    "error res_t \<noteq> None \<longrightarrow> state (useHabitsDb_addTask usr res_t ttl date tcolor st) = st"
    "error res_n \<noteq> None \<longrightarrow> state (useHabitsDb_addNote usr res_n body date st) = st"
    by (simp_all add: useHabitsDb_addHabit_def useHabitsDb_addTask_def useHabitsDb_addNote_def
        unchanged_def split: option.splits)
  have toggle:
    "error res \<noteq> None \<longrightarrow>
       state (useHabitsDb_toggleHabitDay usr res rendered habitId date st) = st"
    by (simp add: useHabitsDb_toggleHabitDay_def unchanged_def Let_def split: option.splits)
  have writes:
    "error res \<noteq> None \<longrightarrow> state (useHabitsDb_updateHabit usr res ident updates st) = st"
    "error res \<noteq> None \<longrightarrow> state (useHabitsDb_deleteHabit usr res ident st) = st"
    "error res \<noteq> None \<longrightarrow> state (useHabitsDb_addSleepEntry usr res date hrs st) = st"
    "error res \<noteq> None \<longrightarrow> state (useHabitsDb_updateTask usr res ident tupdates st) = st"
    "error res \<noteq> None \<longrightarrow> state (useHabitsDb_deleteTask usr res ident st) = st"
    "error res \<noteq> None \<longrightarrow> state (useHabitsDb_updateNote usr res ident body st) = st"
    "error res \<noteq> None \<longrightarrow> state (useHabitsDb_deleteNote usr res ident st) = st"
    by (simp_all add: useHabitsDb_updateHabit_def useHabitsDb_deleteHabit_def
        useHabitsDb_addSleepEntry_def useHabitsDb_updateTask_def useHabitsDb_deleteTask_def
        useHabitsDb_updateNote_def useHabitsDb_deleteNote_def unchanged_def Let_def
        split: option.splits)
  have load:
    "collections (state (useHabitsDb_fetchData None hr cr sr tr nr st)) = initial_local_state"
    "requests (useHabitsDb_fetchData None hr cr sr tr nr st) = []"
    by (simp_all add: useHabitsDb_fetchData_def collections_def initial_local_state_def)
  from no_owner u inserts toggle writes load show ?thesis by blast
qed

theorem failure_paths_leave_state_witness:
  "error (rejected :: unit reply) \<noteq> None \<and>
   error (failed_insert :: habits_row reply) \<noteq> None \<and>
   state (useHabitsDb_toggleHabitDay (Some ''u1'') rejected (habits sample_state) ''h1''
       ''2024-05-03'' sample_state)
     = sample_state \<and>
   state (useHabitsDb_updateHabit (Some ''u1'') rejected ''h1'' rename_only sample_state)
     = sample_state \<and>
   state (useHabitsDb_addSleepEntry (Some ''u1'') rejected ''2024-05-03'' 25 sample_state)
     = sample_state \<and>
   state (useHabitsDb_addHabit (Some ''u1'') failed_insert ''Nap'' ''green'' sample_state)
     = sample_state \<and>
   useHabitsDb_deleteHabit None ok ''h1'' sample_state = unchanged sample_state \<and>
   requests (useHabitsDb_toggleHabitDay (Some ''u1'') rejected (habits sample_state) ''h1''
       ''2024-05-03'' sample_state)
     = [Insert_habit_completion ''h1'' ''2024-05-03'' ''u1''] \<and>
   habits (state (useHabitsDb_fetchData None none_selected none_selected none_selected
     none_selected none_selected sample_state)) = []"
proof -
  have a: "error (rejected :: unit reply) \<noteq> None"
    "error (failed_insert :: habits_row reply) \<noteq> None"
    by (simp_all add: rejected_def failed_insert_def)
  have b: "requests (useHabitsDb_toggleHabitDay (Some ''u1'') rejected (habits sample_state)
      ''h1'' ''2024-05-03'' sample_state) = [Insert_habit_completion ''h1'' ''2024-05-03'' ''u1'']"
    by (simp add: useHabitsDb_toggleHabitDay_def sample_state_def rejected_def
        arr_includes_def Let_def)
  note at_sample = failure_paths_leave_state
    [where st = sample_state and usr = "Some ''u1''" and res = rejected
      and res_h = "failed_insert :: habits_row reply" and habitId = "''h1''"
      and rendered = "habits sample_state"
      and ident = "''h1''" and date = "''2024-05-03''" and updates = rename_only
      and hrs = 25 and name = "''Nap''" and color = "''green''"
      and hr = none_selected and cr = none_selected and sr = none_selected
      and tr = none_selected and nr = none_selected]
  have c: "useHabitsDb_deleteHabit None ok ''h1'' sample_state = unchanged sample_state"
    using failure_paths_leave_state
      [where st = sample_state and res = ok and ident = "''h1''"] by blast
  have d: "habits (state (useHabitsDb_fetchData None none_selected none_selected none_selected
     none_selected none_selected sample_state)) = []"
  proof -
    from at_sample have "collections (state (useHabitsDb_fetchData None none_selected
      none_selected none_selected none_selected none_selected sample_state))
      = initial_local_state" by blast
    then have "habits (collections (state (useHabitsDb_fetchData None none_selected
      none_selected none_selected none_selected none_selected sample_state)))
      = habits initial_local_state" by simp
    then show ?thesis by (simp add: collections_def initial_local_state_def)
  qed
  from at_sample a b c d show ?thesis by blast
qed

section \<open>Sleep entries: replace or insert\<close>

lemma replace_or_insert_Nil:
  "replace_or_insert d h [] = [\<lparr>sleep_date = d, hours = h\<rparr>]"
  by (simp add: replace_or_insert_def)

lemma replace_or_insert_Cons:
  "replace_or_insert d h (e # es) =
     (if sleep_date e = d then \<lparr>sleep_date = d, hours = h\<rparr> # es
      else e # replace_or_insert d h es)"
  by (simp add: replace_or_insert_def split: option.splits)

lemma addSleepEntry_db:
  "error res = None \<Longrightarrow>
   state (useHabitsDb_addSleepEntry (Some uid) res d h st) =
     st\<lparr>sleepEntries := replace_or_insert d h (sleepEntries st)\<rparr>"
  by (simp add: useHabitsDb_addSleepEntry_def replace_or_insert_def Let_def)

lemma addSleepEntry_local:
  "useHabits_addSleepEntry d h st = st\<lparr>sleepEntries := replace_or_insert d h (sleepEntries st)\<rparr>"
  by (simp add: useHabits_addSleepEntry_def replace_or_insert_def Let_def)

lemma replace_or_insert_other_dates:
  "filter (\<lambda>e. sleep_date e \<noteq> d) (replace_or_insert d h es) =
   filter (\<lambda>e. sleep_date e \<noteq> d) es"
  by (induction es) (simp_all add: replace_or_insert_Nil replace_or_insert_Cons)

lemma no_entry_for_date:
  "d \<notin> set (map sleep_date es) \<Longrightarrow> filter (\<lambda>e. sleep_date e = d) es = []"
  by (induction es) auto

lemma replace_or_insert_this_date:
  "one_entry_per_date es \<Longrightarrow>
   filter (\<lambda>e. sleep_date e = d) (replace_or_insert d h es) = [\<lparr>sleep_date = d, hours = h\<rparr>]"
  unfolding one_entry_per_date_def
proof (induction es)
  case Nil
  then show ?case by (simp add: replace_or_insert_Nil)
next
  case (Cons e es)
  show ?case
  proof (cases "sleep_date e = d")
    case True
    with Cons.prems have "d \<notin> set (map sleep_date es)" by auto
    then have "filter (\<lambda>e. sleep_date e = d) es = []" by (rule no_entry_for_date)
    with True show ?thesis by (simp add: replace_or_insert_Cons)
  next
    case False
    with Cons show ?thesis by (simp add: replace_or_insert_Cons)
  qed
qed

lemma replace_or_insert_dates:
  "set (map sleep_date (replace_or_insert d h es)) = insert d (set (map sleep_date es))"
  by (induction es) (auto simp: replace_or_insert_Nil replace_or_insert_Cons)

lemma replace_or_insert_one_per_date:
  "one_entry_per_date es \<Longrightarrow> one_entry_per_date (replace_or_insert d h es)"
  unfolding one_entry_per_date_def
proof (induction es)
  case Nil
  then show ?case by (simp add: replace_or_insert_Nil)
next
  case (Cons e es)
  show ?case
  proof (cases "sleep_date e = d")
    case True
    with Cons.prems show ?thesis by (simp add: replace_or_insert_Cons)
  next
    case False
    have "sleep_date e \<notin> set (map sleep_date (replace_or_insert d h es))"
      using False Cons.prems unfolding replace_or_insert_dates by auto
    with False Cons show ?thesis by (simp add: replace_or_insert_Cons)
  qed
qed

text \<open>
  Claim C5.  From a state with at most one sleep entry per date, \<open>addSleepEntry(d, h1)\<close>
  followed by \<open>addSleepEntry(d, h2)\<close>, both accepted by the store, leaves exactly one
  entry for \<open>d\<close>, with hours \<open>h2\<close>; the entries of all other dates are the same, in the
  same order, and no other collection changes.  The same holds of \<open>useHabits\<close>.
\<close>

theorem addSleepEntry_twice:
  assumes "one_entry_per_date (sleepEntries st)" and "one_entry_per_date (sleepEntries lst)"
    and "error res1 = None" and "error res2 = None"
  shows
    "filter (\<lambda>e. sleep_date e = d)
       (sleepEntries (state (useHabitsDb_addSleepEntry (Some uid) res2 d h2
          (state (useHabitsDb_addSleepEntry (Some uid) res1 d h1 st)))))
       = [\<lparr>sleep_date = d, hours = h2\<rparr>] \<and>
     filter (\<lambda>e. sleep_date e \<noteq> d)
       (sleepEntries (state (useHabitsDb_addSleepEntry (Some uid) res2 d h2
          (state (useHabitsDb_addSleepEntry (Some uid) res1 d h1 st)))))
       = filter (\<lambda>e. sleep_date e \<noteq> d) (sleepEntries st) \<and>
     state (useHabitsDb_addSleepEntry (Some uid) res2 d h2
          (state (useHabitsDb_addSleepEntry (Some uid) res1 d h1 st)))
       = st\<lparr>sleepEntries := replace_or_insert d h2 (replace_or_insert d h1 (sleepEntries st))\<rparr> \<and>
     filter (\<lambda>e. sleep_date e = d)
       (sleepEntries (useHabits_addSleepEntry d h2 (useHabits_addSleepEntry d h1 lst)))
       = [\<lparr>sleep_date = d, hours = h2\<rparr>] \<and>
     filter (\<lambda>e. sleep_date e \<noteq> d)
       (sleepEntries (useHabits_addSleepEntry d h2 (useHabits_addSleepEntry d h1 lst)))
       = filter (\<lambda>e. sleep_date e \<noteq> d) (sleepEntries lst) \<and>
     useHabits_addSleepEntry d h2 (useHabits_addSleepEntry d h1 lst)
       = lst\<lparr>sleepEntries := replace_or_insert d h2 (replace_or_insert d h1 (sleepEntries lst))\<rparr>"
proof -
  have twice: "\<And>es. one_entry_per_date es \<Longrightarrow>
      filter (\<lambda>e. sleep_date e = d) (replace_or_insert d h2 (replace_or_insert d h1 es))
        = [\<lparr>sleep_date = d, hours = h2\<rparr>] \<and>
      filter (\<lambda>e. sleep_date e \<noteq> d) (replace_or_insert d h2 (replace_or_insert d h1 es))
        = filter (\<lambda>e. sleep_date e \<noteq> d) es"
    by (simp add: replace_or_insert_this_date replace_or_insert_one_per_date
        replace_or_insert_other_dates)
  have db: "state (useHabitsDb_addSleepEntry (Some uid) res2 d h2
          (state (useHabitsDb_addSleepEntry (Some uid) res1 d h1 st)))
       = st\<lparr>sleepEntries := replace_or_insert d h2 (replace_or_insert d h1 (sleepEntries st))\<rparr>"
    using assms(3,4) by (simp add: addSleepEntry_db)
  have loc: "useHabits_addSleepEntry d h2 (useHabits_addSleepEntry d h1 lst)
       = lst\<lparr>sleepEntries := replace_or_insert d h2 (replace_or_insert d h1 (sleepEntries lst))\<rparr>"
    by (simp add: addSleepEntry_local)
  show ?thesis
    unfolding db loc using twice[OF assms(1)] twice[OF assms(2)] by simp
qed

theorem addSleepEntry_twice_witness:
  "one_entry_per_date (sleepEntries sample_state) \<and>
   one_entry_per_date (sleepEntries (collections sample_state)) \<and>
   error ok = None \<and>
   sleepEntries (state (useHabitsDb_addSleepEntry (Some ''u1'') ok ''2024-05-02'' 9
          (state (useHabitsDb_addSleepEntry (Some ''u1'') ok ''2024-05-02'' 6 sample_state))))
     = [\<lparr>sleep_date = ''2024-05-01'', hours = 7\<rparr>, \<lparr>sleep_date = ''2024-05-02'', hours = 9\<rparr>] \<and>
   filter (\<lambda>e. sleep_date e = ''2024-05-02'')
       (sleepEntries (state (useHabitsDb_addSleepEntry (Some ''u1'') ok ''2024-05-02'' 9
          (state (useHabitsDb_addSleepEntry (Some ''u1'') ok ''2024-05-02'' 6 sample_state)))))
     = [\<lparr>sleep_date = ''2024-05-02'', hours = 9\<rparr>] \<and>
   filter (\<lambda>e. sleep_date e = ''2024-05-02'')
       (sleepEntries (useHabits_addSleepEntry ''2024-05-02'' 9
          (useHabits_addSleepEntry ''2024-05-02'' 6 (collections sample_state))))
     = [\<lparr>sleep_date = ''2024-05-02'', hours = 9\<rparr>]"
proof -
  have a: "one_entry_per_date (sleepEntries sample_state)"
    "one_entry_per_date (sleepEntries (collections sample_state))"
    by (simp_all add: one_entry_per_date_def sample_state_def collections_def)
  have b: "error ok = None" by (simp add: ok_def)
  have c: "sleepEntries (state (useHabitsDb_addSleepEntry (Some ''u1'') ok ''2024-05-02'' 9
          (state (useHabitsDb_addSleepEntry (Some ''u1'') ok ''2024-05-02'' 6 sample_state))))
     = [\<lparr>sleep_date = ''2024-05-01'', hours = 7\<rparr>, \<lparr>sleep_date = ''2024-05-02'', hours = 9\<rparr>]"
    by (simp add: useHabitsDb_addSleepEntry_def ok_def sample_state_def Let_def)
  from addSleepEntry_twice[OF a b b, of "''2024-05-02''" "''u1''" 9 6] a b c
  show ?thesis by blast
qed

section \<open>Sleep hours are stored as given\<close>

lemma replace_or_insert_set:
  "set (replace_or_insert d h es) \<subseteq> insert \<lparr>sleep_date = d, hours = h\<rparr> (set es)"
  by (induction es) (auto simp: replace_or_insert_Nil replace_or_insert_Cons)

lemma replace_or_insert_stores:
  "\<lparr>sleep_date = d, hours = h\<rparr> \<in> set (replace_or_insert d h es)"
  by (induction es) (auto simp: replace_or_insert_Nil replace_or_insert_Cons)

lemma replace_or_insert_in_range:
  "hours_in_range es \<Longrightarrow> sleep_entries_CHECK h \<Longrightarrow> hours_in_range (replace_or_insert d h es)"
  using replace_or_insert_set[of d h es]
  by (auto simp: hours_in_range_def list_all_iff)

text \<open>
  Claim C8, as amended.  Neither hook clamps: \<open>addSleepEntry\<close> stores the hours it is
  given, unchanged.  In \<open>useHabitsDb\<close> the value reaches local state only when the store
  accepted the upsert; so when the store enforces its \<open>CHECK (hours >= 0 AND hours <= 24)\<close>
  on the value sent and the entries held were within the range, all entries held after the
  call are.  \<open>useHabits\<close> keeps the entries within the range for arguments within it.
\<close>

theorem addSleepEntry_hours:
  "\<lparr>sleep_date = d, hours = h\<rparr> \<in> set (sleepEntries (useHabits_addSleepEntry d h lst)) \<and>
   (error res = None \<longrightarrow>
      \<lparr>sleep_date = d, hours = h\<rparr>
        \<in> set (sleepEntries (state (useHabitsDb_addSleepEntry (Some uid) res d h st)))) \<and>
   (hours_in_range (sleepEntries st) \<and> (error res = None \<longrightarrow> sleep_entries_CHECK h)
      \<longrightarrow> hours_in_range (sleepEntries (state (useHabitsDb_addSleepEntry usr res d h st)))) \<and>
   (hours_in_range (sleepEntries lst) \<and> sleep_entries_CHECK h
      \<longrightarrow> hours_in_range (sleepEntries (useHabits_addSleepEntry d h lst)))"
proof (intro conjI impI)
  show "\<lparr>sleep_date = d, hours = h\<rparr> \<in> set (sleepEntries (useHabits_addSleepEntry d h lst))"
    by (simp add: addSleepEntry_local replace_or_insert_stores)
next
  assume "error res = None"
  then show "\<lparr>sleep_date = d, hours = h\<rparr>
      \<in> set (sleepEntries (state (useHabitsDb_addSleepEntry (Some uid) res d h st)))"
    by (simp add: addSleepEntry_db replace_or_insert_stores)
next
  assume a: "hours_in_range (sleepEntries st) \<and> (error res = None \<longrightarrow> sleep_entries_CHECK h)"
  show "hours_in_range (sleepEntries (state (useHabitsDb_addSleepEntry usr res d h st)))"
  proof (cases "usr = None \<or> error res \<noteq> None")
    case True
    then have "state (useHabitsDb_addSleepEntry usr res d h st) = st"
      by (auto simp: useHabitsDb_addSleepEntry_def unchanged_def split: option.splits)
    with a show ?thesis by simp
  next
    case False
    then obtain uid' where "usr = Some uid'" "error res = None" by auto
    with a show ?thesis by (simp add: addSleepEntry_db replace_or_insert_in_range)
  qed
next
  assume "hours_in_range (sleepEntries lst) \<and> sleep_entries_CHECK h"
  then show "hours_in_range (sleepEntries (useHabits_addSleepEntry d h lst))"
    by (simp add: addSleepEntry_local replace_or_insert_in_range)
qed

theorem addSleepEntry_hours_witness:
  "error ok = None \<and> error rejected \<noteq> None \<and> sleep_entries_CHECK (13 / 2) \<and>
   hours_in_range (sleepEntries sample_state) \<and>
   hours_in_range (sleepEntries (collections sample_state)) \<and>
   \<lparr>sleep_date = ''2024-05-03'', hours = 13 / 2\<rparr>
     \<in> set (sleepEntries (state (useHabitsDb_addSleepEntry (Some ''u1'') ok ''2024-05-03'' (13 / 2)
           sample_state))) \<and>
   hours_in_range (sleepEntries (state (useHabitsDb_addSleepEntry (Some ''u1'') ok
     ''2024-05-03'' (13 / 2) sample_state))) \<and>
   hours_in_range (sleepEntries (state (useHabitsDb_addSleepEntry (Some ''u1'') rejected
     ''2024-05-03'' 25 sample_state))) \<and>
   hours_in_range (sleepEntries (useHabits_addSleepEntry ''2024-05-03'' (13 / 2)
     (collections sample_state)))"
proof -
  have a: "error ok = None" "error rejected \<noteq> None" "sleep_entries_CHECK (13 / 2)"
    by (simp_all add: ok_def rejected_def sleep_entries_CHECK_def)
  have b: "hours_in_range (sleepEntries sample_state)"
    "hours_in_range (sleepEntries (collections sample_state))"
    by (simp_all add: hours_in_range_def sample_state_def collections_def
        sleep_entries_CHECK_def)
  from addSleepEntry_hours[of "''2024-05-03''" "13 / 2" "collections sample_state" ok "''u1''"
      sample_state "Some ''u1''"]
    addSleepEntry_hours[of "''2024-05-03''" 25 "collections sample_state" rejected "''u1''"
      sample_state "Some ''u1''"] a b
  show ?thesis by blast
qed

text \<open>
  Claim C8 as stated fails: \<open>useHabits\<close> stores 25 hours as 25 hours.
\<close>

theorem addSleepEntry_hours_counterexample:
  "sleepEntries (useHabits_addSleepEntry ''2024-05-03'' 25 initial_local_state) =
     [\<lparr>sleep_date = ''2024-05-03'', hours = 25\<rparr>] \<and>
   \<not> hours_in_range (sleepEntries (useHabits_addSleepEntry ''2024-05-03'' 25 initial_local_state))"
  by (simp add: useHabits_addSleepEntry_def initial_local_state_def hours_in_range_def
      sleep_entries_CHECK_def Let_def)

section \<open>Order of the notes\<close>

lemma addNote_db_prepends:
  "error res = None \<Longrightarrow> data res = Some row \<Longrightarrow>
   notes_st (state (useHabitsDb_addNote (Some uid) res body date st)) =
     \<lparr>note_id = n_id row, content = n_content row, note_date = n_date row,
      note_createdAt = n_created_at row\<rparr> # notes_st st"
  by (simp add: useHabitsDb_addNote_def)

lemma addNote_local_appends:
  "notes_st (useHabits_addNote uuid now body date lst) =
     notes_st lst @
     [\<lparr>note_id = uuid, content = body, note_date = date, note_createdAt = now\<rparr>]"
  by (simp add: useHabits_addNote_def)

text \<open>
  Claim C7 at a state holding the note \<open>n1\<close>: \<open>addNote\<close> of \<open>useHabitsDb\<close> puts the
  new note \<open>n2\<close> first, \<open>addNote\<close> of \<open>useHabits\<close> puts it last.
\<close>

theorem addNote_order:
  "map note_id (notes_st (state (useHabitsDb_addNote (Some ''u1'')
      \<lparr>data = Some notes_row_second, error = None\<rparr> ''second'' ''2024-05-02'' sample_state)))
     = [''n2'', ''n1''] \<and>
   map note_id (notes_st (useHabits_addNote ''n2'' 600 ''second'' ''2024-05-02''
      (collections sample_state)))
     = [''n1'', ''n2'']"
  by (simp add: useHabitsDb_addNote_def useHabits_addNote_def notes_row_second_def
      sample_state_def collections_def)

section \<open>What updateHabit changes\<close>

lemma spread_Habit_effect:
  "updateHabit_effect ident updates h (if habit_id h = ident then spread_Habit h updates else h)"
  by (simp add: updateHabit_effect_def spread_Habit_def)

lemma map_effect:
  "list_all2 (updateHabit_effect ident updates) hs
     (map (\<lambda>h. if habit_id h = ident then spread_Habit h updates else h) hs)"
  by (induction hs) (simp_all add: spread_Habit_effect del: if_split)

lemma effect_keeps:
  "updateHabit_effect ident updates h h' \<Longrightarrow> updateHabit_keeps ident updates h h'"
  by (auto simp: updateHabit_effect_def updateHabit_keeps_def)

lemma map_keeps:
  "list_all2 (updateHabit_keeps ident updates) hs
     (map (\<lambda>h. if habit_id h = ident then spread_Habit h updates else h) hs)"
  using map_effect[of ident updates hs]
  by (rule list_all2_mono) (rule effect_keeps)

lemma list_all2_same_keeps:
  "list_all2 (updateHabit_keeps ident updates) hs hs"
  by (induction hs) (simp_all add: updateHabit_keeps_def)

text \<open>
  Claim C9, as amended.  \<open>updateHabit(id, updates)\<close> keeps the number and order of the
  habits, never changes a habit's \<open>id\<close> or \<open>createdAt\<close>, leaves every habit with another
  identifier as it was, and leaves the completion list of a habit with identifier \<open>id\<close>
  as it was when \<open>updates\<close> carries no \<open>completedDays\<close>; it does not touch the other
  collections.  Where it patches (always in \<open>useHabits\<close>, after the store accepted the
  write in \<open>useHabitsDb\<close>) a habit with identifier \<open>id\<close> gets exactly the keys that
  \<open>updates\<close> carries, among \<open>name\<close>, \<open>color\<close> and \<open>completedDays\<close>.
\<close>

theorem updateHabit_frame:
  "list_all2 (updateHabit_keeps ident updates) (habits st)
     (habits (state (useHabitsDb_updateHabit usr res ident updates st))) \<and>
   (if error res = None
    then list_all2 (updateHabit_effect ident updates) (habits st)
           (habits (state (useHabitsDb_updateHabit (Some uid) res ident updates st)))
    else state (useHabitsDb_updateHabit (Some uid) res ident updates st) = st) \<and>
   (state (useHabitsDb_updateHabit usr res ident updates st))
     \<lparr>habits := habits st\<rparr> = st \<and>
   list_all2 (updateHabit_keeps ident updates) (habits lst)
     (habits (useHabits_updateHabit ident updates lst)) \<and>
   list_all2 (updateHabit_effect ident updates) (habits lst)
     (habits (useHabits_updateHabit ident updates lst)) \<and>
   (useHabits_updateHabit ident updates lst)\<lparr>habits := habits lst\<rparr> = lst"
proof (intro conjI)
  show "list_all2 (updateHabit_keeps ident updates) (habits st)
     (habits (state (useHabitsDb_updateHabit usr res ident updates st)))"
    by (cases usr)
      (simp_all add: useHabitsDb_updateHabit_def unchanged_def Let_def map_keeps
        list_all2_same_keeps)
next
  show "if error res = None
    then list_all2 (updateHabit_effect ident updates) (habits st)
           (habits (state (useHabitsDb_updateHabit (Some uid) res ident updates st)))
    else state (useHabitsDb_updateHabit (Some uid) res ident updates st) = st"
    by (simp add: useHabitsDb_updateHabit_def Let_def map_effect)
next
  show "(state (useHabitsDb_updateHabit usr res ident updates st))\<lparr>habits := habits st\<rparr> = st"
    by (cases usr) (simp_all add: useHabitsDb_updateHabit_def unchanged_def Let_def)
next
  show "list_all2 (updateHabit_keeps ident updates) (habits lst)
     (habits (useHabits_updateHabit ident updates lst))"
    by (simp add: useHabits_updateHabit_def map_keeps)
next
  show "list_all2 (updateHabit_effect ident updates) (habits lst)
     (habits (useHabits_updateHabit ident updates lst))"
    by (simp add: useHabits_updateHabit_def map_effect)
next
  show "(useHabits_updateHabit ident updates lst)\<lparr>habits := habits lst\<rparr> = lst"
    by (simp add: useHabits_updateHabit_def)
qed

theorem updateHabit_frame_witness:
  "habits (state (useHabitsDb_updateHabit (Some ''u1'') ok ''h1'' rename_only sample_state)) =
     [\<lparr>habit_id = ''h1'', habit_name = ''Jog'', habit_color = ''red'', habit_createdAt = 100,
       completedDays = [''2024-05-01'', ''2024-05-02'']\<rparr>,
      \<lparr>habit_id = ''h2'', habit_name = ''Read'', habit_color = ''blue'', habit_createdAt = 200,
       completedDays = [''2024-05-02'']\<rparr>] \<and>
   error ok = None \<and> upd_completedDays rename_only = None \<and>
   list_all2 (updateHabit_keeps ''h1'' rename_only) (habits sample_state)
     (habits (state (useHabitsDb_updateHabit (Some ''u1'') ok ''h1'' rename_only sample_state))) \<and>
   list_all2 (updateHabit_effect ''h1'' rename_only) (habits sample_state)
     (habits (state (useHabitsDb_updateHabit (Some ''u1'') ok ''h1'' rename_only sample_state))) \<and>
   list_all2 (updateHabit_effect ''h1'' rename_only) (habits (collections sample_state))
     (habits (useHabits_updateHabit ''h1'' rename_only (collections sample_state)))"
proof -
  have a: "habits (state (useHabitsDb_updateHabit (Some ''u1'') ok ''h1'' rename_only
      sample_state)) =
     [\<lparr>habit_id = ''h1'', habit_name = ''Jog'', habit_color = ''red'', habit_createdAt = 100,
       completedDays = [''2024-05-01'', ''2024-05-02'']\<rparr>,
      \<lparr>habit_id = ''h2'', habit_name = ''Read'', habit_color = ''blue'', habit_createdAt = 200,
       completedDays = [''2024-05-02'']\<rparr>]"
    by (simp add: useHabitsDb_updateHabit_def ok_def rename_only_def sample_state_def
        spread_Habit_def Let_def)
  have b: "error ok = None" "upd_completedDays rename_only = None"
    by (simp_all add: ok_def rename_only_def)
  from updateHabit_frame[of "''h1''" rename_only sample_state "Some ''u1''" ok "''u1''"
      "collections sample_state"] a b
  show ?thesis by simp
qed

text \<open>
  Claim C9 as stated fails: \<open>updates\<close> may carry \<open>completedDays\<close>, and the spread then
  replaces the completion list, in both hooks.
\<close>

theorem updateHabit_frame_counterexample:
  "map completedDays (habits sample_state) = [[''2024-05-01'', ''2024-05-02''], [''2024-05-02'']] \<and>
   map completedDays
     (habits (state (useHabitsDb_updateHabit (Some ''u1'') ok ''h1'' clear_days sample_state)))
     = [[], [''2024-05-02'']] \<and>
   map completedDays (habits (useHabits_updateHabit ''h1'' clear_days (collections sample_state)))
     = [[], [''2024-05-02'']]"
  by (simp add: useHabitsDb_updateHabit_def useHabits_updateHabit_def ok_def clear_days_def
      sample_state_def collections_def spread_Habit_def Let_def)

section \<open>Toggling a day, in both hooks\<close>

lemma toggleHabitDay_local:
  "useHabits_toggleHabitDay habitId date lst =
     lst\<lparr>habits := map (toggled habitId date) (habits lst)\<rparr>"
  by (simp add: useHabits_toggleHabitDay_def toggled_def arr_includes_def Let_def cong: map_cong)

lemma toggled_id: "habit_id (toggled habitId date habit) = habit_id habit"
  by (simp add: toggled_def)

lemma toggled_ids: "map habit_id (map (toggled habitId date) hs) = map habit_id hs"
  by (induction hs) (simp_all add: toggled_id)

lemma toggled_twice:
  "toggle_restores habitId habit (toggled habitId date (toggled habitId date habit))"
  by (auto simp: toggle_restores_def toggled_def)

lemma map_toggled_twice:
  "list_all2 (toggle_restores habitId) hs
     (map (toggled habitId date) (map (toggled habitId date) hs))"
  by (induction hs) (simp_all add: toggled_twice)

lemma find_None_D: "find P xs = None \<Longrightarrow> x \<in> set xs \<Longrightarrow> \<not> P x"
  by (induction xs) (auto split: if_splits)

lemma toggleHabitDay_db:
  assumes "distinct_ids (habits st)" and "error res = None"
  shows "state (useHabitsDb_toggleHabitDay (Some uid) res (habits st) habitId date st) =
     st\<lparr>habits := map (toggled habitId date) (habits st)\<rparr>"
proof (cases "find (\<lambda>h. habit_id h = habitId) (habits st)")
  case None
  then have "\<And>h. h \<in> set (habits st) \<Longrightarrow> toggled habitId date h = h"
    using find_None_D[OF None] by (simp add: toggled_def)
  then have "map (toggled habitId date) (habits st) = habits st"
    by (simp add: map_idI)
  with None show ?thesis
    by (simp add: useHabitsDb_toggleHabitDay_def unchanged_def)
next
  case (Some habit)
  then have mem: "habit \<in> set (habits st)" and hid: "habit_id habit = habitId"
    using find_Some_D[OF Some] by auto
  have uniq: "\<And>h. h \<in> set (habits st) \<Longrightarrow> habit_id h = habitId \<Longrightarrow> h = habit"
    using assms(1) mem hid unfolding distinct_ids_def
    by (metis distinct_map inj_onD)
  have "map (\<lambda>h. if habit_id h \<noteq> habitId then h
                 else h\<lparr>completedDays :=
                          (if date \<in> set (completedDays habit)
                           then filter (\<lambda>d. d \<noteq> date) (completedDays h)
                           else completedDays h @ [date])\<rparr>) (habits st)
      = map (toggled habitId date) (habits st)"
    by (rule map_cong) (auto simp: toggled_def dest: uniq)
  with Some assms(2) show ?thesis
    by (simp add: useHabitsDb_toggleHabitDay_def arr_includes_def Let_def)
qed

text \<open>
  Pairwise different identifiers are what every run of the sync hook keeps, whatever
  the \<open>updates\<close> passed to \<open>updateHabit\<close>, as long as the replies respect the primary
  key of \<open>habits\<close>.
\<close>

lemma step_distinct_ids:
  assumes "distinct_ids (habits st)" "store_consistent st e"
  shows "distinct_ids (habits (step st e))"
proof (cases e)
  case (Call_fetchData usr hr cr sr tr nr)
  from fetch_habits[of usr hr cr sr tr nr st] assms Call_fetchData show ?thesis
    by (auto simp: distinct_ids_def habitsWithCompletions_ids habits_PRIMARY_KEY_def)
next
  case (Call_addHabit usr res name color)
  with assms show ?thesis
    by (auto simp: useHabitsDb_addHabit_def unchanged_def distinct_ids_def
        split: option.splits)
next
  case (Call_updateHabit usr res ident updates)
  with assms show ?thesis
    by (auto simp: useHabitsDb_updateHabit_def unchanged_def distinct_ids_def Let_def
        spread_Habit_ids simp del: map_map split: option.splits)
next
  case (Call_deleteHabit usr res ident)
  with assms show ?thesis
    by (auto simp: useHabitsDb_deleteHabit_def unchanged_def distinct_ids_def
        distinct_map_filter split: option.splits)
next
  case (Call_toggleHabitDay usr res rendered habitId date)
  with assms show ?thesis
    by (auto simp: useHabitsDb_toggleHabitDay_def unchanged_def distinct_ids_def Let_def
        toggle_ids simp del: map_map split: option.splits)
next
  case (Call_addSleepEntry usr res date hrs)
  with assms show ?thesis
    by (simp add: useHabitsDb_addSleepEntry_def unchanged_def split: option.splits)
next
  case (Call_addTask usr res ttl date color)
  with assms show ?thesis
    by (simp add: useHabitsDb_addTask_def unchanged_def split: option.splits)
next
  case (Call_updateTask usr res ident updates)
  with assms show ?thesis
    by (simp add: useHabitsDb_updateTask_def unchanged_def split: option.splits)
next
  case (Call_deleteTask usr res ident)
  with assms show ?thesis
    by (simp add: useHabitsDb_deleteTask_def unchanged_def split: option.splits)
next
  case (Call_addNote usr res body date)
  with assms show ?thesis
    by (simp add: useHabitsDb_addNote_def unchanged_def split: option.splits)
next
  case (Call_updateNote usr res ident body)
  with assms show ?thesis
    by (simp add: useHabitsDb_updateNote_def unchanged_def split: option.splits)
next
  case (Call_deleteNote usr res ident)
  with assms show ?thesis
    by (simp add: useHabitsDb_deleteNote_def unchanged_def split: option.splits)
qed

lemma run_distinct_ids:
  "distinct_ids (habits st) \<Longrightarrow> admissible allowed st evs \<Longrightarrow>
   distinct_ids (habits (run st evs))"
  by (induction evs arbitrary: st) (auto simp: step_distinct_ids)

lemma reachable_distinct_ids:
  "admissible allowed initial_state evs \<Longrightarrow> distinct_ids (habits (run initial_state evs))"
  by (rule run_distinct_ids) (simp_all add: initial_state_def distinct_ids_def)

text \<open>
  Claim C2, as amended.  In every local state the hook reaches (the replies of the store
  respecting the primary key of \<open>habits\<close>), two successive calls
  \<open>toggleHabitDay(habitId, date)\<close> that the store both accepts, each made through the
  callback of the render showing the state it patches (the second after the re-render
  that follows the first), give back every habit of that identifier with the same set of
  completed days and nothing else changed, leave every other habit as it was, in the same
  order, and leave the other collections alone.  \<open>useHabits\<close>, whose updater reads the
  list it patches, does so in every state.
\<close>

theorem toggleHabitDay_twice:
  assumes "admissible any_updates initial_state evs"
    and "error res1 = None" and "error res2 = None"
    and "st = run initial_state evs"
    and "st1 = state (useHabitsDb_toggleHabitDay (Some uid) res1 (habits st) habitId date st)"
    and "st2 = state (useHabitsDb_toggleHabitDay (Some uid) res2 (habits st1) habitId date st1)"
  shows
    "list_all2 (toggle_restores habitId) (habits st) (habits st2) \<and>
     st2\<lparr>habits := habits st\<rparr> = st \<and>
     list_all2 (toggle_restores habitId) (habits lst)
       (habits (useHabits_toggleHabitDay habitId date
          (useHabits_toggleHabitDay habitId date lst))) \<and>
     (useHabits_toggleHabitDay habitId date (useHabits_toggleHabitDay habitId date lst))
       \<lparr>habits := habits lst\<rparr> = lst"
proof -
  have ids: "distinct_ids (habits st)"
    unfolding assms(4) using assms(1) by (rule reachable_distinct_ids)
  have first: "st1 = st\<lparr>habits := map (toggled habitId date) (habits st)\<rparr>"
    unfolding assms(5) using ids assms(2) by (rule toggleHabitDay_db)
  have "distinct_ids (habits st1)"
    using ids unfolding first distinct_ids_def by (simp add: toggled_ids del: map_map)
  then have second: "st2 = st1\<lparr>habits := map (toggled habitId date) (habits st1)\<rparr>"
    unfolding assms(6) using assms(3) by (rule toggleHabitDay_db)
  have db: "st2 =
      st\<lparr>habits := map (toggled habitId date) (map (toggled habitId date) (habits st))\<rparr>"
    unfolding second unfolding first by (simp del: map_map)
  have loc: "useHabits_toggleHabitDay habitId date (useHabits_toggleHabitDay habitId date lst) =
      lst\<lparr>habits := map (toggled habitId date) (map (toggled habitId date) (habits lst))\<rparr>"
    by (simp add: toggleHabitDay_local del: map_map)
  show ?thesis
    unfolding db loc by (simp add: map_toggled_twice del: map_map)
qed

theorem toggleHabitDay_twice_witness:
  "admissible any_updates initial_state loaded_run \<and> error ok = None \<and>
   map completedDays (habits (run initial_state loaded_run)) =
     [[''2024-05-01'', ''2024-05-02''], [''2024-05-01'']] \<and>
   map completedDays (habits (run initial_state toggled_run)) =
     [[''2024-05-02''], [''2024-05-01'']] \<and>
   map completedDays
     (habits (state (useHabitsDb_toggleHabitDay (Some ''u1'') ok
        (habits (run initial_state toggled_run)) ''h1'' ''2024-05-01''
        (run initial_state toggled_run))))
     = [[''2024-05-02'', ''2024-05-01''], [''2024-05-01'']] \<and>
   list_all2 (toggle_restores ''h1'') (habits (run initial_state loaded_run))
     (habits (state (useHabitsDb_toggleHabitDay (Some ''u1'') ok
        (habits (run initial_state toggled_run)) ''h1'' ''2024-05-01''
        (run initial_state toggled_run)))) \<and>
   list_all2 (toggle_restores ''h1'') (habits (collections sample_state))
     (habits (useHabits_toggleHabitDay ''h1'' ''2024-05-01''
        (useHabits_toggleHabitDay ''h1'' ''2024-05-01'' (collections sample_state))))"
proof -
  have a: "admissible any_updates initial_state loaded_run" "error ok = None"
    by (simp_all add: run_defs example_defs any_updates_def habits_PRIMARY_KEY_def
        habit_completions_UNIQUE_def orEmpty_def)
  have b: "map completedDays (habits (run initial_state loaded_run)) =
     [[''2024-05-01'', ''2024-05-02''], [''2024-05-01'']]"
    by (simp add: run_defs example_defs hook_defs)
  have c: "map completedDays (habits (run initial_state toggled_run)) =
     [[''2024-05-02''], [''2024-05-01'']]"
    by (simp add: run_defs example_defs hook_defs)
  have d: "map completedDays
     (habits (state (useHabitsDb_toggleHabitDay (Some ''u1'') ok
        (habits (run initial_state toggled_run)) ''h1'' ''2024-05-01''
        (run initial_state toggled_run))))
     = [[''2024-05-02'', ''2024-05-01''], [''2024-05-01'']]"
    by (simp add: run_defs example_defs hook_defs)
  have e: "run initial_state toggled_run =
      state (useHabitsDb_toggleHabitDay (Some ''u1'') ok (habits (run initial_state loaded_run))
        ''h1'' ''2024-05-01'' (run initial_state loaded_run))"
    by (simp add: toggled_run_def loaded_run_def)
  from toggleHabitDay_twice[OF a(1) a(2) a(2) refl e refl, of "collections sample_state"]
    a b c d
  show ?thesis by blast
qed

text \<open>
  Claim C2 as stated fails when both calls go through the callback of one render (two
  clicks before the re-render, or the second call made while the first is in flight):
  both read \<open>isCompleted\<close> from the same habits, both delete, the store accepts both,
  and the day that was completed stays removed.
\<close>

theorem toggleHabitDay_twice_counterexample:
  "admissible any_updates initial_state loaded_run \<and> error ok = None \<and>
   map habit_id (habits (run initial_state loaded_run)) = [''h1'', ''h2''] \<and>
   map completedDays (habits (run initial_state loaded_run)) =
     [[''2024-05-01'', ''2024-05-02''], [''2024-05-01'']] \<and>
   map completedDays
     (habits (state (useHabitsDb_toggleHabitDay (Some ''u1'') ok
        (habits (run initial_state loaded_run)) ''h1'' ''2024-05-01''
        (state (useHabitsDb_toggleHabitDay (Some ''u1'') ok
           (habits (run initial_state loaded_run)) ''h1'' ''2024-05-01''
           (run initial_state loaded_run))))))
     = [[''2024-05-02''], [''2024-05-01'']]"
proof -
  have a: "admissible any_updates initial_state loaded_run" "error ok = None"
    by (simp_all add: run_defs example_defs any_updates_def habits_PRIMARY_KEY_def
        habit_completions_UNIQUE_def orEmpty_def)
  have b: "map habit_id (habits (run initial_state loaded_run)) = [''h1'', ''h2'']"
    "map completedDays (habits (run initial_state loaded_run)) =
     [[''2024-05-01'', ''2024-05-02''], [''2024-05-01'']]"
    by (simp_all add: run_defs example_defs hook_defs)
  have c: "map completedDays
     (habits (state (useHabitsDb_toggleHabitDay (Some ''u1'') ok
        (habits (run initial_state loaded_run)) ''h1'' ''2024-05-01''
        (state (useHabitsDb_toggleHabitDay (Some ''u1'') ok
           (habits (run initial_state loaded_run)) ''h1'' ''2024-05-01''
           (run initial_state loaded_run))))))
     = [[''2024-05-02''], [''2024-05-01'']]"
    by (simp add: run_defs example_defs hook_defs)
  from a b c show ?thesis by blast
qed

section \<open>The two hooks compute the same local transitions\<close>

text \<open>
  Claim C10, as amended.  When the store accepts the write, each of \<open>addSleepEntry\<close>,
  \<open>updateHabit\<close>, \<open>deleteHabit\<close>, \<open>updateTask\<close>, \<open>deleteTask\<close>, \<open>updateNote\<close> and
  \<open>deleteNote\<close> of \<open>useHabitsDb\<close> changes the four collections exactly as the operation
  of the same name of \<open>useHabits\<close> does, in every state; \<open>toggleHabitDay\<close> does so in
  every state the hook reaches (the replies of the store respecting the primary key of
  \<open>habits\<close>) when it is called through the callback of the render showing that state.
\<close>

theorem hooks_agree:
  assumes "error res = None"
  shows
    "(admissible any_updates initial_state evs \<longrightarrow>
        collections (state (useHabitsDb_toggleHabitDay (Some uid) res
            (habits (run initial_state evs)) habitId date (run initial_state evs))) =
          useHabits_toggleHabitDay habitId date (collections (run initial_state evs))) \<and>
     collections (state (useHabitsDb_addSleepEntry (Some uid) res date hrs st)) =
       useHabits_addSleepEntry date hrs (collections st) \<and>
     collections (state (useHabitsDb_updateHabit (Some uid) res ident updates st)) =
       useHabits_updateHabit ident updates (collections st) \<and>
     collections (state (useHabitsDb_deleteHabit (Some uid) res ident st)) =
       useHabits_deleteHabit ident (collections st) \<and>
     collections (state (useHabitsDb_updateTask (Some uid) res ident tupdates st)) =
       useHabits_updateTask ident tupdates (collections st) \<and>
     collections (state (useHabitsDb_deleteTask (Some uid) res ident st)) =
       useHabits_deleteTask ident (collections st) \<and>
     collections (state (useHabitsDb_updateNote (Some uid) res ident body st)) =
       useHabits_updateNote ident body (collections st) \<and>
     collections (state (useHabitsDb_deleteNote (Some uid) res ident st)) =
       useHabits_deleteNote ident (collections st)"
proof (intro conjI impI)
  assume "admissible any_updates initial_state evs"
  then have "distinct_ids (habits (run initial_state evs))" by (rule reachable_distinct_ids)
  then have "state (useHabitsDb_toggleHabitDay (Some uid) res (habits (run initial_state evs))
        habitId date (run initial_state evs)) =
      (run initial_state evs)
        \<lparr>habits := map (toggled habitId date) (habits (run initial_state evs))\<rparr>"
    using assms by (rule toggleHabitDay_db)
  then show "collections (state (useHabitsDb_toggleHabitDay (Some uid) res
        (habits (run initial_state evs)) habitId date (run initial_state evs))) =
      useHabits_toggleHabitDay habitId date (collections (run initial_state evs))"
    by (simp add: toggleHabitDay_local collections_def)
next
  show "collections (state (useHabitsDb_addSleepEntry (Some uid) res date hrs st)) =
      useHabits_addSleepEntry date hrs (collections st)"
    using assms by (simp add: addSleepEntry_db addSleepEntry_local collections_def)
next
  show "collections (state (useHabitsDb_updateHabit (Some uid) res ident updates st)) =
      useHabits_updateHabit ident updates (collections st)"
    using assms
    by (simp add: useHabitsDb_updateHabit_def useHabits_updateHabit_def collections_def Let_def)
next
  show "collections (state (useHabitsDb_deleteHabit (Some uid) res ident st)) =
      useHabits_deleteHabit ident (collections st)"
    using assms
    by (simp add: useHabitsDb_deleteHabit_def useHabits_deleteHabit_def collections_def)
next
  show "collections (state (useHabitsDb_updateTask (Some uid) res ident tupdates st)) =
      useHabits_updateTask ident tupdates (collections st)"
    using assms
    by (simp add: useHabitsDb_updateTask_def useHabits_updateTask_def collections_def)
next
  show "collections (state (useHabitsDb_deleteTask (Some uid) res ident st)) =
      useHabits_deleteTask ident (collections st)"
    using assms
    by (simp add: useHabitsDb_deleteTask_def useHabits_deleteTask_def collections_def)
next
  show "collections (state (useHabitsDb_updateNote (Some uid) res ident body st)) =
      useHabits_updateNote ident body (collections st)"
    using assms
    by (simp add: useHabitsDb_updateNote_def useHabits_updateNote_def collections_def)
next
  show "collections (state (useHabitsDb_deleteNote (Some uid) res ident st)) =
      useHabits_deleteNote ident (collections st)"
    using assms
    by (simp add: useHabitsDb_deleteNote_def useHabits_deleteNote_def collections_def)
qed

theorem hooks_agree_witness:
  "error ok = None \<and> admissible any_updates initial_state loaded_run \<and>
   collections (state (useHabitsDb_toggleHabitDay (Some ''u1'') ok
      (habits (run initial_state loaded_run)) ''h2'' ''2024-05-03''
      (run initial_state loaded_run))) =
     useHabits_toggleHabitDay ''h2'' ''2024-05-03'' (collections (run initial_state loaded_run)) \<and>
   map completedDays (habits (useHabits_toggleHabitDay ''h2'' ''2024-05-03''
      (collections (run initial_state loaded_run)))) =
     [[''2024-05-01'', ''2024-05-02''], [''2024-05-01'', ''2024-05-03'']] \<and>
   collections (state (useHabitsDb_updateTask (Some ''u1'') ok ''t1'' tick_only sample_state)) =
     useHabits_updateTask ''t1'' tick_only (collections sample_state) \<and>
   map completed (tasks (useHabits_updateTask ''t1'' tick_only (collections sample_state))) =
     [True] \<and>
   collections (state (useHabitsDb_deleteNote (Some ''u1'') ok ''n1'' sample_state)) =
     useHabits_deleteNote ''n1'' (collections sample_state)"
proof -
  have a: "error ok = None" "admissible any_updates initial_state loaded_run"
    by (simp_all add: run_defs example_defs any_updates_def habits_PRIMARY_KEY_def
        habit_completions_UNIQUE_def orEmpty_def)
  have b: "map completedDays (habits (useHabits_toggleHabitDay ''h2'' ''2024-05-03''
      (collections (run initial_state loaded_run)))) =
     [[''2024-05-01'', ''2024-05-02''], [''2024-05-01'', ''2024-05-03'']]"
    by (simp add: useHabits_toggleHabitDay_def collections_def run_defs example_defs hook_defs)
  have c: "map completed (tasks (useHabits_updateTask ''t1'' tick_only
      (collections sample_state))) = [True]"
    by (simp add: useHabits_updateTask_def collections_def sample_state_def tick_only_def
        spread_Task_def)
  from hooks_agree[OF a(1), of loaded_run "''u1''" "''h2''" "''2024-05-03''" _ sample_state
      "''t1''" _ tick_only "''n1''"]
    hooks_agree[OF a(1), of loaded_run "''u1''" _ _ _ sample_state "''n1''"]
    a b c
  show ?thesis by blast
qed

text \<open>
  Claim C10 as stated fails for \<open>toggleHabitDay\<close>: \<open>useHabits\<close> decides inside its
  updater, from the list it patches, \<open>useHabitsDb\<close> decides from the habits of the render
  whose callback is called.  Called a second time through the callback of the render that
  showed the loaded habits, \<open>useHabitsDb\<close> removes the day again where \<open>useHabits\<close>,
  applied to the same state, adds it back.
\<close>

theorem hooks_agree_counterexample:
  "error ok = None \<and> admissible any_updates initial_state toggled_run \<and>
   map habit_id (habits (run initial_state toggled_run)) = [''h1'', ''h2''] \<and>
   map completedDays (habits (run initial_state loaded_run)) =
     [[''2024-05-01'', ''2024-05-02''], [''2024-05-01'']] \<and>
   map completedDays (habits (run initial_state toggled_run)) =
     [[''2024-05-02''], [''2024-05-01'']] \<and>
   map completedDays
     (habits (state (useHabitsDb_toggleHabitDay (Some ''u1'') ok
        (habits (run initial_state loaded_run)) ''h1'' ''2024-05-01''
        (run initial_state toggled_run)))) = [[''2024-05-02''], [''2024-05-01'']] \<and>
   map completedDays
     (habits (useHabits_toggleHabitDay ''h1'' ''2024-05-01''
        (collections (run initial_state toggled_run))))
     = [[''2024-05-02'', ''2024-05-01''], [''2024-05-01'']] \<and>
   collections (state (useHabitsDb_toggleHabitDay (Some ''u1'') ok
        (habits (run initial_state loaded_run)) ''h1'' ''2024-05-01''
        (run initial_state toggled_run))) \<noteq>
     useHabits_toggleHabitDay ''h1'' ''2024-05-01'' (collections (run initial_state toggled_run))"
proof -
  have a: "error ok = None" "admissible any_updates initial_state toggled_run"
    by (simp_all add: run_defs example_defs any_updates_def habits_PRIMARY_KEY_def
        habit_completions_UNIQUE_def orEmpty_def)
  have b: "map habit_id (habits (run initial_state toggled_run)) = [''h1'', ''h2'']"
    "map completedDays (habits (run initial_state loaded_run)) =
     [[''2024-05-01'', ''2024-05-02''], [''2024-05-01'']]"
    "map completedDays (habits (run initial_state toggled_run)) =
     [[''2024-05-02''], [''2024-05-01'']]"
    by (simp_all add: run_defs example_defs hook_defs)
  have c: "map completedDays
     (habits (state (useHabitsDb_toggleHabitDay (Some ''u1'') ok
        (habits (run initial_state loaded_run)) ''h1'' ''2024-05-01''
        (run initial_state toggled_run)))) = [[''2024-05-02''], [''2024-05-01'']]"
    by (simp add: run_defs example_defs hook_defs)
  have d: "map completedDays
     (habits (useHabits_toggleHabitDay ''h1'' ''2024-05-01''
        (collections (run initial_state toggled_run))))
     = [[''2024-05-02'', ''2024-05-01''], [''2024-05-01'']]"
    by (simp add: useHabits_toggleHabitDay_def collections_def run_defs example_defs hook_defs)
  have e: "collections (state (useHabitsDb_toggleHabitDay (Some ''u1'') ok
        (habits (run initial_state loaded_run)) ''h1'' ''2024-05-01''
        (run initial_state toggled_run))) \<noteq>
     useHabits_toggleHabitDay ''h1'' ''2024-05-01'' (collections (run initial_state toggled_run))"
  proof
    assume "collections (state (useHabitsDb_toggleHabitDay (Some ''u1'') ok
        (habits (run initial_state loaded_run)) ''h1'' ''2024-05-01''
        (run initial_state toggled_run))) =
     useHabits_toggleHabitDay ''h1'' ''2024-05-01'' (collections (run initial_state toggled_run))"
    then have "map completedDays (habits (collections (state (useHabitsDb_toggleHabitDay
        (Some ''u1'') ok (habits (run initial_state loaded_run)) ''h1'' ''2024-05-01''
        (run initial_state toggled_run))))) =
      map completedDays (habits (useHabits_toggleHabitDay ''h1'' ''2024-05-01''
        (collections (run initial_state toggled_run))))" by simp
    with c d show False by (simp add: collections_def)
  qed
  from a b c d e show ?thesis by blast
qed

end
